theory Spec2Isabelle
  imports Main "HOL-Library.Char_ord" "HOL-Library.List_Lexorder" "HOL-Library.Product_Lexorder"
begin

section \<open>Enumerations of the persistence schema\<close>

text \<open>
  The enums \<open>ApprovalStage\<close>, \<open>ApprovalAction\<close>, \<open>EventStatus\<close> and \<open>Role\<close> are
  imported by the services from the generated database client. Their members are the ones
  the services name; each constructor carries the enum as a prefix because the enums share
  member names (\<open>APPROVED\<close>, \<open>SUBMITTED\<close>, ...).
\<close>

datatype ApprovalStage =
    Stage_DRAFT
  | Stage_SUBMITTED
  | Stage_HOD_APPROVED
  | Stage_DEAN_APPROVED
  | Stage_HEAD_APPROVED
  | Stage_APPROVED
  | Stage_REJECTED
  | Stage_MODIFICATION_REQUIRED

datatype ApprovalAction =
    Action_SUBMITTED
  | Action_APPROVED
  | Action_REJECTED
  | Action_MODIFICATION_REQUIRED

datatype EventStatus =
    Status_DRAFT
  | Status_SUBMITTED
  | Status_APPROVED
  | Status_REJECTED
  | Status_COMPLETED
  | Status_RUNNING

datatype Role =
    EVENT_COORDINATOR
  | HOD
  | DEAN
  | INSTITUTIONAL_HEAD
  | ADMIN_ITC

section \<open>Approval engine: the pure helpers\<close>

text \<open>
  \<open>ApprovalEngine.getNextApprovalStage\<close>: a lookup in the literal \<open>workflow\<close> record,
  which has an entry for every stage.
\<close>

fun getNextApprovalStage :: "ApprovalStage \<Rightarrow> ApprovalStage" where
  "getNextApprovalStage Stage_DRAFT = Stage_SUBMITTED"
| "getNextApprovalStage Stage_SUBMITTED = Stage_HOD_APPROVED"
| "getNextApprovalStage Stage_HOD_APPROVED = Stage_DEAN_APPROVED"
| "getNextApprovalStage Stage_DEAN_APPROVED = Stage_HEAD_APPROVED"
| "getNextApprovalStage Stage_HEAD_APPROVED = Stage_APPROVED"
| "getNextApprovalStage Stage_APPROVED = Stage_APPROVED"
| "getNextApprovalStage Stage_REJECTED = Stage_REJECTED"
| "getNextApprovalStage Stage_MODIFICATION_REQUIRED = Stage_SUBMITTED"

text \<open>
  \<open>ApprovalEngine.validateApprovalPermission\<close>. The approver's school and department
  ids are nullable (\<open>string | null\<close>), the event's are not; \<open>===\<close> between \<open>null\<close> and
  a string is false.
\<close>

fun validateApprovalPermission ::
  "Role \<Rightarrow> ApprovalStage \<Rightarrow> string option \<Rightarrow> string option \<Rightarrow> string \<Rightarrow> string \<Rightarrow> bool" where
  "validateApprovalPermission approverRole Stage_SUBMITTED
      approverSchoolId approverDepartmentId eventSchoolId eventDepartmentId =
     (approverRole = HOD \<and> approverDepartmentId = Some eventDepartmentId)"
| "validateApprovalPermission approverRole Stage_HOD_APPROVED
      approverSchoolId approverDepartmentId eventSchoolId eventDepartmentId =
     (approverRole = DEAN \<and> approverSchoolId = Some eventSchoolId)"
| "validateApprovalPermission approverRole Stage_DEAN_APPROVED
      approverSchoolId approverDepartmentId eventSchoolId eventDepartmentId =
     (approverRole = INSTITUTIONAL_HEAD)"
| "validateApprovalPermission approverRole currentStage
      approverSchoolId approverDepartmentId eventSchoolId eventDepartmentId = False"

text \<open>\<open>ApprovalEngine.getRequiredApproverRole\<close>: the literal \<open>stageToRole\<close> record.\<close>

fun getRequiredApproverRole :: "ApprovalStage \<Rightarrow> Role option" where
  "getRequiredApproverRole Stage_SUBMITTED = Some HOD"
| "getRequiredApproverRole Stage_HOD_APPROVED = Some DEAN"
| "getRequiredApproverRole Stage_DEAN_APPROVED = Some INSTITUTIONAL_HEAD"
| "getRequiredApproverRole Stage_HEAD_APPROVED = None"
| "getRequiredApproverRole Stage_APPROVED = None"
| "getRequiredApproverRole Stage_REJECTED = None"
| "getRequiredApproverRole Stage_MODIFICATION_REQUIRED = None"
| "getRequiredApproverRole Stage_DRAFT = None"

section \<open>The store\<close>

text \<open>
  The services reach the database through the generated client. The store is modelled as
  one record of tables, each a list of rows in table order. Only the columns the two
  services read or write are kept; timestamps (\<open>createdAt\<close>, \<open>updatedAt\<close>,
  \<open>timestamp\<close>) and generated row ids of bookings, steps and notifications are left out.
  Instants are integers (milliseconds), quantities and capacities are integers.
  The relations are foreign keys: a booking's event and an event's coordinator are existing
  rows, so the id read through a joined row (\<open>booking.event.id\<close>) is the booking's
  \<open>eventId\<close> column.
\<close>

record Event =
  e_id :: string
  e_title :: string
  e_status :: EventStatus
  e_approvalStage :: ApprovalStage
  e_schoolId :: string
  e_departmentId :: string
  e_coordinatorId :: string
  e_participantCount :: int
  e_venueTypePreference :: "string option"
  e_scheduleStart :: int
  e_scheduleEnd :: int
  e_rejectionReason :: "string option"

record User =
  u_id :: string
  u_role :: Role
  u_schoolId :: "string option"
  u_departmentId :: "string option"
  u_firstName :: string
  u_lastName :: string
  u_isActive :: bool

record Venue =
  v_id :: string
  v_name :: string
  v_type :: string
  v_capacity :: int
  v_isActive :: bool
  v_maintenanceMode :: bool

record VenueBooking =
  vb_venueId :: string
  vb_eventId :: string
  vb_startTime :: int
  vb_endTime :: int
  vb_status :: string

record Resource =
  r_id :: string
  r_name :: string
  r_totalQuantity :: int

record ResourceRequest =
  rq_id :: string
  rq_eventId :: string
  rq_resourceId :: string
  rq_quantityNeeded :: int
  rq_isAllocated :: bool
  rq_allocatedQuantity :: "int option"

record ResourceBooking =
  rb_resourceId :: string
  rb_eventId :: string
  rb_quantity :: int
  rb_startTime :: int
  rb_endTime :: int
  rb_status :: string

record ApprovalStep =
  s_eventId :: string
  s_approverId :: string
  s_stage :: ApprovalStage
  s_action :: ApprovalAction
  s_comments :: "string option"

record Notification =
  n_userId :: string
  n_eventId :: "string option"
  n_type :: string
  n_title :: string
  n_message :: string

record Store =
  db_event :: "Event list"
  db_user :: "User list"
  db_venue :: "Venue list"
  db_venueBooking :: "VenueBooking list"
  db_resource :: "Resource list"
  db_resourceRequest :: "ResourceRequest list"
  db_resourceBooking :: "ResourceBooking list"
  db_approvalStep :: "ApprovalStep list"
  db_notification :: "Notification list"

text \<open>
  What \<open>findUnique\<close> with \<open>include: { resourceRequests: { include: { resource: true } } }\<close>
  returns: the event row with its request rows, each joined with its resource row.
\<close>

record RequestWithResource = ResourceRequest +
  rq_resource :: Resource

record EventWithRequests = Event +
  e_resourceRequests :: "RequestWithResource list"

datatype error = Error string

text \<open>
  The join. The relation from a request to its resource is a required foreign key, so the
  lookup of the resource row finds it; a request without one is not part of the result.
\<close>

definition requestsOfEvent :: "Store \<Rightarrow> string \<Rightarrow> RequestWithResource list" where
  "requestsOfEvent db eventId =
     List.map_filter
       (\<lambda>rq. map_option (\<lambda>res. ResourceRequest.extend rq (RequestWithResource.fields res))
                (find (\<lambda>r. r_id r = rq_resourceId rq) (db_resource db)))
       (filter (\<lambda>rq. rq_eventId rq = eventId) (db_resourceRequest db))"

definition findEventWithRequests :: "Store \<Rightarrow> string \<Rightarrow> EventWithRequests option" where
  "findEventWithRequests db eventId =
     map_option
       (\<lambda>ev. Event.extend ev (EventWithRequests.fields (requestsOfEvent db eventId)))
       (find (\<lambda>e. e_id e = eventId) (db_event db))"

text \<open>
  The \<open>where\<close> clause shared by every booking query of the allocation engine:
  \<open>status: 'confirmed'\<close>, \<open>startTime < event.scheduleEnd\<close>, \<open>endTime > event.scheduleStart\<close>,
  for one venue or one resource.
\<close>

definition confirmedVenueBookingsInWindow ::
  "Store \<Rightarrow> string \<Rightarrow> EventWithRequests \<Rightarrow> VenueBooking list" where
  "confirmedVenueBookingsInWindow db venueId event =
     filter (\<lambda>b. vb_venueId b = venueId \<and> vb_status b = ''confirmed''
                \<and> vb_startTime b < e_scheduleEnd event
                \<and> vb_endTime b > e_scheduleStart event)
            (db_venueBooking db)"

definition confirmedResourceBookingsInWindow ::
  "Store \<Rightarrow> string \<Rightarrow> EventWithRequests \<Rightarrow> ResourceBooking list" where
  "confirmedResourceBookingsInWindow db resourceId event =
     filter (\<lambda>b. rb_resourceId b = resourceId \<and> rb_status b = ''confirmed''
                \<and> rb_startTime b < e_scheduleEnd event
                \<and> rb_endTime b > e_scheduleStart event)
            (db_resourceBooking db)"

section \<open>Numbers in template strings\<close>

text \<open>
  A template literal prints an integer in decimal, with a leading minus sign when it is
  negative.
\<close>

definition digitChar :: "nat \<Rightarrow> char" where
  "digitChar d = ''0123456789'' ! d"

fun showNat :: "nat \<Rightarrow> string" where
  "showNat n = (if n < 10 then [digitChar n] else showNat (n div 10) @ [digitChar (n mod 10)])"

declare showNat.simps [simp del]

definition showInt :: "int \<Rightarrow> string" where
  "showInt i = (if i < 0 then CHR ''-'' # showNat (nat (- i)) else showNat (nat i))"

section \<open>Allocation engine\<close>

datatype ConflictType = venue_unavailable | resource_shortage | time_overlap

record AllocationConflict =
  c_type :: ConflictType
  c_conflictingEventIds :: "string list"
  c_details :: string
  c_suggestions :: "string list option"

record ResourceAllocation =
  ra_resourceId :: string
  ra_allocatedQuantity :: int

text \<open>
  \<open>AllocationResult\<close>. The optional members are options; \<open>explanation\<close> is set by every
  producer and is kept as a plain string.
\<close>

record AllocationResult =
  ar_success :: bool
  ar_venueId :: "string option"
  ar_resourceAllocations :: "ResourceAllocation list option"
  ar_conflicts :: "AllocationConflict list option"
  ar_explanation :: string

record VenueAllocation =
  va_success :: bool
  va_venueId :: "string option"
  va_conflicts :: "AllocationConflict list option"
  va_explanation :: string

record ResourcesAllocation =
  rs_success :: bool
  rs_allocations :: "ResourceAllocation list option"
  rs_conflicts :: "AllocationConflict list option"
  rs_explanation :: string

subsection \<open>Venue allocation\<close>

text \<open>
  The \<open>venue.findMany\<close> of \<open>allocateVenue\<close>. The spread
  \<open>...(event.venueTypePreference && { type: ... })\<close> adds the type condition only
  when the preference is truthy: neither \<open>null\<close> nor the empty string. The rows come
  ordered by capacity, then by name; names are compared as character lists, and rows equal
  in both keep their table order.
\<close>

definition venueMatchesPreference :: "EventWithRequests \<Rightarrow> Venue \<Rightarrow> bool" where
  "venueMatchesPreference event venue =
     (case e_venueTypePreference event of
        None \<Rightarrow> True
      | Some t \<Rightarrow> (if t = [] then True else v_type venue = t))"

definition candidateVenues :: "Store \<Rightarrow> EventWithRequests \<Rightarrow> Venue list" where
  "candidateVenues db event =
     sort_key (\<lambda>v. (v_capacity v, v_name v))
       (filter (\<lambda>v. v_isActive v \<and> \<not> v_maintenanceMode v
                   \<and> v_capacity v \<ge> e_participantCount event
                   \<and> venueMatchesPreference event v)
               (db_venue db))"

text \<open>The \<open>for\<close> loop over the candidates, which returns at the first free venue.\<close>

fun bookFirstFreeVenue ::
  "Store \<Rightarrow> EventWithRequests \<Rightarrow> Venue list \<Rightarrow> (VenueAllocation \<times> Store) option" where
  "bookFirstFreeVenue db event [] = None"
| "bookFirstFreeVenue db event (venue # rest) =
     (if confirmedVenueBookingsInWindow db (v_id venue) event = []
      then Some
        (\<lparr>va_success = True, va_venueId = Some (v_id venue), va_conflicts = None,
          va_explanation = ''Allocated venue: '' @ v_name venue\<rparr>,
         db\<lparr>db_venueBooking := db_venueBooking db @
              [\<lparr>vb_venueId = v_id venue, vb_eventId = e_id event,
                vb_startTime = e_scheduleStart event, vb_endTime = e_scheduleEnd event,
                vb_status = ''confirmed''\<rparr>]\<rparr>)
      else bookFirstFreeVenue db event rest)"

definition allocateVenue :: "Store \<Rightarrow> EventWithRequests \<Rightarrow> VenueAllocation \<times> Store" where
  "allocateVenue db event =
     (let candidates = candidateVenues db event in
      if length candidates = 0 then
        (\<lparr>va_success = False, va_venueId = None,
          va_conflicts = Some
            [\<lparr>c_type = venue_unavailable, c_conflictingEventIds = [],
              c_details = ''No suitable venues available'',
              c_suggestions = Some [''Consider reducing participant count'',
                                    ''Choose different time slot'']\<rparr>],
          va_explanation = ''No venues found with capacity >= ''
                           @ showInt (e_participantCount event)\<rparr>,
         db)
      else
        (case bookFirstFreeVenue db event candidates of
           Some booked \<Rightarrow> booked
         | None \<Rightarrow>
            (let allConflicts =
                   map (\<lambda>venue. map vb_eventId
                                   (confirmedVenueBookingsInWindow db (v_id venue) event))
                       candidates
             in (\<lparr>va_success = False, va_venueId = None,
                  va_conflicts = Some
                    [\<lparr>c_type = venue_unavailable,
                      c_conflictingEventIds = concat allConflicts,
                      c_details = ''Time slot conflicts with existing bookings'',
                      c_suggestions = Some [''Choose different time slot'',
                                            ''Consider smaller venue capacity requirement'',
                                            ''Contact conflicting events for rescheduling'']\<rparr>],
                  va_explanation = ''All suitable venues are booked during requested time''\<rparr>,
                 db))))"

subsection \<open>Resource allocation\<close>

text \<open>
  The body of the \<open>for\<close> loop of \<open>allocateResources\<close> for one request: the updated
  store, and either the conflict pushed onto \<open>conflicts\<close> or the entry pushed onto
  \<open>allocations\<close>. \<open>resourceRequest.update\<close> addresses the row by its id.
\<close>

definition allocateResourceRequest ::
  "Store \<Rightarrow> EventWithRequests \<Rightarrow> RequestWithResource
     \<Rightarrow> Store \<times> (AllocationConflict + ResourceAllocation)" where
  "allocateResourceRequest db event resourceRequest =
     (let resource = rq_resource resourceRequest;
          overlappingBookings = confirmedResourceBookingsInWindow db (r_id resource) event;
          bookedQuantity = foldl (\<lambda>sum booking. sum + rb_quantity booking) 0 overlappingBookings;
          availableQuantity = r_totalQuantity resource - bookedQuantity
      in if availableQuantity \<ge> rq_quantityNeeded resourceRequest then
           (db\<lparr>db_resourceBooking := db_resourceBooking db @
                  [\<lparr>rb_resourceId = r_id resource, rb_eventId = e_id event,
                    rb_quantity = rq_quantityNeeded resourceRequest,
                    rb_startTime = e_scheduleStart event, rb_endTime = e_scheduleEnd event,
                    rb_status = ''confirmed''\<rparr>],
               db_resourceRequest :=
                  map (\<lambda>row. if rq_id row = rq_id resourceRequest
                              then row\<lparr>rq_isAllocated := True,
                                       rq_allocatedQuantity :=
                                         Some (rq_quantityNeeded resourceRequest)\<rparr>
                              else row)
                      (db_resourceRequest db)\<rparr>,
            Inr \<lparr>ra_resourceId = r_id resource,
                 ra_allocatedQuantity = rq_quantityNeeded resourceRequest\<rparr>)
         else
           (let conflictingBookings = confirmedResourceBookingsInWindow db (r_id resource) event
            in (db,
                Inl \<lparr>c_type = resource_shortage,
                     c_conflictingEventIds = map rb_eventId conflictingBookings,
                     c_details = r_name resource @ '': Need ''
                                 @ showInt (rq_quantityNeeded resourceRequest)
                                 @ '', only '' @ showInt availableQuantity
                                 @ '' available ('' @ showInt bookedQuantity
                                 @ '' already booked)'',
                     c_suggestions = Some [''Reduce quantity requirement'',
                                           ''Choose different time slot'',
                                           ''Find alternative resources'']\<rparr>)))"

fun allocateResourcesLoop ::
  "Store \<Rightarrow> EventWithRequests \<Rightarrow> RequestWithResource list
     \<Rightarrow> ResourceAllocation list \<Rightarrow> AllocationConflict list
     \<Rightarrow> Store \<times> ResourceAllocation list \<times> AllocationConflict list" where
  "allocateResourcesLoop db event [] allocations conflicts = (db, allocations, conflicts)"
| "allocateResourcesLoop db event (resourceRequest # rest) allocations conflicts =
     (case allocateResourceRequest db event resourceRequest of
        (db', Inr allocation) \<Rightarrow>
          allocateResourcesLoop db' event rest (allocations @ [allocation]) conflicts
      | (db', Inl conflict) \<Rightarrow>
          allocateResourcesLoop db' event rest allocations (conflicts @ [conflict]))"

definition allocateResources ::
  "Store \<Rightarrow> EventWithRequests \<Rightarrow> ResourcesAllocation \<times> Store" where
  "allocateResources db event =
     (case allocateResourcesLoop db event (e_resourceRequests event) [] [] of
        (db', allocations, conflicts) \<Rightarrow>
          if length conflicts > 0 then
            (\<lparr>rs_success = False, rs_allocations = None, rs_conflicts = Some conflicts,
              rs_explanation = ''Failed to allocate '' @ showNat (length conflicts)
                               @ '' resources''\<rparr>,
             db')
          else
            (\<lparr>rs_success = True, rs_allocations = Some allocations, rs_conflicts = None,
              rs_explanation = ''Successfully allocated '' @ showNat (length allocations)
                               @ '' resources''\<rparr>,
             db'))"

subsection \<open>The transaction\<close>

text \<open>
  \<open>allocateEvent\<close> runs its body in \<open>prisma.$transaction\<close>. The transaction is rolled
  back when the callback throws, and committed when the callback returns a value: a
  thrown error is \<open>Inl\<close> and leaves the store as it was, a returned result is \<open>Inr\<close>
  together with the store holding every write made so far.
\<close>

definition allocateEvent :: "Store \<Rightarrow> string \<Rightarrow> error + (AllocationResult \<times> Store)" where
  "allocateEvent db eventId =
     (case findEventWithRequests db eventId of
        None \<Rightarrow> Inl (Error ''Event not found'')
      | Some event \<Rightarrow>
          if e_approvalStage event \<noteq> Stage_HEAD_APPROVED
          then Inl (Error ''Event not ready for allocation'')
          else
            (case allocateVenue db event of
               (venueResult, db1) \<Rightarrow>
                 if \<not> va_success venueResult then
                   Inr (\<lparr>ar_success = False, ar_venueId = None,
                         ar_resourceAllocations = None,
                         ar_conflicts = va_conflicts venueResult,
                         ar_explanation = ''Venue allocation failed: ''
                                          @ va_explanation venueResult\<rparr>,
                        db1)
                 else
                   (case allocateResources db1 event of
                      (resourceResult, db2) \<Rightarrow>
                        if \<not> rs_success resourceResult then
                          Inr (\<lparr>ar_success = False, ar_venueId = None,
                                ar_resourceAllocations = None,
                                ar_conflicts = rs_conflicts resourceResult,
                                ar_explanation = ''Resource allocation failed: ''
                                                 @ rs_explanation resourceResult\<rparr>,
                               db2)
                        else
                          Inr (\<lparr>ar_success = True, ar_venueId = va_venueId venueResult,
                                ar_resourceAllocations = rs_allocations resourceResult,
                                ar_conflicts = None,
                                ar_explanation = ''Event successfully allocated''\<rparr>,
                               db2\<lparr>db_event :=
                                      map (\<lambda>row. if e_id row = eventId
                                                  then row\<lparr>e_status := Status_APPROVED,
                                                           e_approvalStage := Stage_APPROVED\<rparr>
                                                  else row)
                                          (db_event db2),
                                    db_approvalStep := db_approvalStep db2 @
                                      [\<lparr>s_eventId = eventId, s_approverId = ''system'',
                                        s_stage = Stage_APPROVED, s_action = Action_APPROVED,
                                        s_comments =
                                          Some ''Automatic allocation completed successfully''\<rparr>]\<rparr>))))"

subsection \<open>The read-only feasibility check\<close>

record AvailabilityCheck =
  ck_success :: bool
  ck_conflicts :: "AllocationConflict list option"

text \<open>The \<open>for\<close> loop of \<open>checkVenueAvailability\<close>: true at the first free venue.\<close>

fun someVenueFree :: "Store \<Rightarrow> EventWithRequests \<Rightarrow> Venue list \<Rightarrow> bool" where
  "someVenueFree db event [] = False"
| "someVenueFree db event (venue # rest) =
     (if confirmedVenueBookingsInWindow db (v_id venue) event = [] then True
      else someVenueFree db event rest)"

text \<open>
  \<open>checkVenueAvailability\<close>. Its \<open>venue.findMany\<close> has the three conditions written
  here and no \<open>orderBy\<close>.
\<close>

definition checkVenueAvailability :: "Store \<Rightarrow> EventWithRequests \<Rightarrow> AvailabilityCheck" where
  "checkVenueAvailability db event =
     (let candidateVenues =
            filter (\<lambda>v. v_isActive v \<and> \<not> v_maintenanceMode v
                        \<and> v_capacity v \<ge> e_participantCount event)
                   (db_venue db)
      in if length candidateVenues = 0 then
           \<lparr>ck_success = False,
            ck_conflicts = Some [\<lparr>c_type = venue_unavailable, c_conflictingEventIds = [],
                                  c_details = ''No suitable venues available'',
                                  c_suggestions = None\<rparr>]\<rparr>
         else if someVenueFree db event candidateVenues then
           \<lparr>ck_success = True, ck_conflicts = None\<rparr>
         else
           \<lparr>ck_success = False,
            ck_conflicts = Some [\<lparr>c_type = venue_unavailable, c_conflictingEventIds = [],
                                  c_details = ''All suitable venues are booked'',
                                  c_suggestions = None\<rparr>]\<rparr>)"

fun checkResourceAvailabilityLoop ::
  "Store \<Rightarrow> EventWithRequests \<Rightarrow> RequestWithResource list
     \<Rightarrow> AllocationConflict list \<Rightarrow> AllocationConflict list" where
  "checkResourceAvailabilityLoop db event [] conflicts = conflicts"
| "checkResourceAvailabilityLoop db event (resourceRequest # rest) conflicts =
     (let overlappingBookings =
            confirmedResourceBookingsInWindow db (rq_resourceId resourceRequest) event;
          bookedQuantity = foldl (\<lambda>sum booking. sum + rb_quantity booking) 0 overlappingBookings;
          availableQuantity = r_totalQuantity (rq_resource resourceRequest) - bookedQuantity
      in if availableQuantity < rq_quantityNeeded resourceRequest then
           checkResourceAvailabilityLoop db event rest
             (conflicts @
               [\<lparr>c_type = resource_shortage,
                 c_conflictingEventIds = map rb_eventId overlappingBookings,
                 c_details = r_name (rq_resource resourceRequest) @ '': Need ''
                             @ showInt (rq_quantityNeeded resourceRequest)
                             @ '', only '' @ showInt availableQuantity @ '' available'',
                 c_suggestions = None\<rparr>])
         else checkResourceAvailabilityLoop db event rest conflicts)"

definition checkResourceAvailability ::
  "Store \<Rightarrow> EventWithRequests \<Rightarrow> AvailabilityCheck" where
  "checkResourceAvailability db event =
     (let conflicts = checkResourceAvailabilityLoop db event (e_resourceRequests event) []
      in \<lparr>ck_success = (length conflicts = 0),
          ck_conflicts = (if length conflicts > 0 then Some conflicts else None)\<rparr>)"

text \<open>
  \<open>checkAllocationFeasibility\<close> only reads: it returns a result and no store.
  \<open>x.conflicts || []\<close> is the list, or the empty list when the member is absent.
\<close>

definition checkAllocationFeasibility :: "Store \<Rightarrow> string \<Rightarrow> error + AllocationResult" where
  "checkAllocationFeasibility db eventId =
     (case findEventWithRequests db eventId of
        None \<Rightarrow> Inl (Error ''Event not found'')
      | Some event \<Rightarrow>
          (let venueCheck = checkVenueAvailability db event;
               resourceCheck = checkResourceAvailability db event
           in Inr \<lparr>ar_success = (ck_success venueCheck \<and> ck_success resourceCheck),
                   ar_venueId = None,
                   ar_resourceAllocations = None,
                   ar_conflicts =
                     Some ((case ck_conflicts venueCheck of None \<Rightarrow> [] | Some cs \<Rightarrow> cs)
                           @ (case ck_conflicts resourceCheck of None \<Rightarrow> [] | Some cs \<Rightarrow> cs)),
                   ar_explanation =
                     ''Feasibility check: ''
                     @ (if ck_success venueCheck then ''Venue OK'' else ''Venue issues'')
                     @ '', ''
                     @ (if ck_success resourceCheck then ''Resources OK''
                        else ''Resource issues'')\<rparr>))"

section \<open>Approval engine: processing an approval\<close>

record ApprovalContext =
  ctx_approverId :: string
  ctx_action :: ApprovalAction
  ctx_comments :: "string option"
  ctx_eventId :: string

record ApprovalOutcome =
  po_success :: bool
  po_nextStage :: "ApprovalStage option"
  po_error :: "string option"

text \<open>How a template literal prints a stage, and an optional comment.\<close>

fun stageName :: "ApprovalStage \<Rightarrow> string" where
  "stageName Stage_DRAFT = ''DRAFT''"
| "stageName Stage_SUBMITTED = ''SUBMITTED''"
| "stageName Stage_HOD_APPROVED = ''HOD_APPROVED''"
| "stageName Stage_DEAN_APPROVED = ''DEAN_APPROVED''"
| "stageName Stage_HEAD_APPROVED = ''HEAD_APPROVED''"
| "stageName Stage_APPROVED = ''APPROVED''"
| "stageName Stage_REJECTED = ''REJECTED''"
| "stageName Stage_MODIFICATION_REQUIRED = ''MODIFICATION_REQUIRED''"

definition showComments :: "string option \<Rightarrow> string" where
  "showComments comments = (case comments of None \<Rightarrow> ''undefined'' | Some c \<Rightarrow> c)"

definition quoted :: "string \<Rightarrow> string" where
  "quoted s = [CHR 0x22] @ s @ [CHR 0x22]"

text \<open>
  \<open>NotificationService.createNotification\<close> inserts one row; the \<open>data\<close> payload and the
  \<open>isRead\<close> flag are not kept.
\<close>

definition createNotification :: "Store \<Rightarrow> Notification \<Rightarrow> Store" where
  "createNotification db n = db\<lparr>db_notification := db_notification db @ [n]\<rparr>"

text \<open>
  \<open>sendApprovalNotifications\<close>. The \<open>user.findMany\<close> for the next approvers narrows by
  department for a department head and by school for a dean.
\<close>

definition sendApprovalNotifications ::
  "Store \<Rightarrow> Event \<Rightarrow> ApprovalAction \<Rightarrow> ApprovalStage \<Rightarrow> User \<Rightarrow> string option \<Rightarrow> Store" where
  "sendApprovalNotifications db event action newStage approver comments =
     (case action of
        Action_APPROVED \<Rightarrow>
          (let db1 = createNotification db
                 \<lparr>n_userId = e_coordinatorId event, n_eventId = Some (e_id event),
                  n_type = ''EVENT_APPROVED'', n_title = ''Event Approved'',
                  n_message = ''Your event '' @ quoted (e_title event)
                              @ '' has been approved at '' @ stageName newStage @ '' stage''\<rparr>
           in if newStage \<noteq> Stage_APPROVED then
                (case getRequiredApproverRole newStage of
                   None \<Rightarrow> db1
                 | Some nextApproverRole \<Rightarrow>
                     (let nextApprovers =
                            filter (\<lambda>u. u_role u = nextApproverRole \<and> u_isActive u
                                        \<and> (if nextApproverRole = HOD
                                            then u_departmentId u = Some (e_departmentId event)
                                            else True)
                                        \<and> (if nextApproverRole = DEAN
                                            then u_schoolId u = Some (e_schoolId event)
                                            else True))
                                   (db_user db1)
                      in foldl (\<lambda>d u. createNotification d
                                  \<lparr>n_userId = u_id u, n_eventId = Some (e_id event),
                                   n_type = ''EVENT_SUBMITTED'',
                                   n_title = ''Event Awaiting Approval'',
                                   n_message = ''Event '' @ quoted (e_title event)
                                               @ '' requires your approval''\<rparr>)
                               db1 nextApprovers))
              else db1)
      | Action_REJECTED \<Rightarrow>
          createNotification db
            \<lparr>n_userId = e_coordinatorId event, n_eventId = Some (e_id event),
             n_type = ''EVENT_REJECTED'', n_title = ''Event Rejected'',
             n_message = ''Your event '' @ quoted (e_title event)
                         @ '' has been rejected. Reason: '' @ showComments comments\<rparr>
      | Action_MODIFICATION_REQUIRED \<Rightarrow>
          createNotification db
            \<lparr>n_userId = e_coordinatorId event, n_eventId = Some (e_id event),
             n_type = ''EVENT_MODIFICATION_REQUIRED'',
             n_title = ''Event Modification Required'',
             n_message = ''Your event '' @ quoted (e_title event)
                         @ '' requires modifications. Comments: '' @ showComments comments\<rparr>
      | Action_SUBMITTED \<Rightarrow> db)"

text \<open>
  The \<open>switch (action)\<close> of \<open>processApproval\<close>: the values of \<open>nextStage\<close>,
  \<open>eventStatus\<close>, \<open>comments\<close> and \<open>action\<close> after it, or \<open>None\<close> when the
  \<open>default\<close> branch returns. \<open>AllocationEngine.allocateEvent\<close> opens a transaction of
  its own, so the store it commits is passed on; an error it throws leaves the switch.
\<close>

record Transition =
  tr_nextStage :: ApprovalStage
  tr_eventStatus :: EventStatus
  tr_comments :: "string option"
  tr_action :: ApprovalAction

definition switchAction ::
  "Store \<Rightarrow> Event \<Rightarrow> ApprovalContext \<Rightarrow> error + (Transition option \<times> Store)" where
  "switchAction db event ctx =
     (case ctx_action ctx of
        Action_APPROVED \<Rightarrow>
          (let nextStage = getNextApprovalStage (e_approvalStage event) in
           if nextStage = Stage_APPROVED then
             (case allocateEvent db (ctx_eventId ctx) of
                Inl err \<Rightarrow> Inl err
              | Inr (allocationResult, db1) \<Rightarrow>
                  if ar_success allocationResult then
                    Inr (Some \<lparr>tr_nextStage = nextStage, tr_eventStatus = Status_APPROVED,
                               tr_comments = ctx_comments ctx,
                               tr_action = Action_APPROVED\<rparr>, db1)
                  else
                    Inr (Some \<lparr>tr_nextStage = e_approvalStage event,
                               tr_eventStatus = Status_SUBMITTED,
                               tr_comments = Some (''Allocation failed: ''
                                                   @ ar_explanation allocationResult),
                               tr_action = Action_MODIFICATION_REQUIRED\<rparr>, db1))
           else
             Inr (Some \<lparr>tr_nextStage = nextStage, tr_eventStatus = e_status event,
                        tr_comments = ctx_comments ctx, tr_action = Action_APPROVED\<rparr>, db))
      | Action_REJECTED \<Rightarrow>
          Inr (Some \<lparr>tr_nextStage = Stage_REJECTED, tr_eventStatus = Status_REJECTED,
                     tr_comments = ctx_comments ctx, tr_action = Action_REJECTED\<rparr>, db)
      | Action_MODIFICATION_REQUIRED \<Rightarrow>
          Inr (Some \<lparr>tr_nextStage = Stage_MODIFICATION_REQUIRED,
                     tr_eventStatus = Status_SUBMITTED,
                     tr_comments = ctx_comments ctx,
                     tr_action = Action_MODIFICATION_REQUIRED\<rparr>, db)
      | Action_SUBMITTED \<Rightarrow> Inr (None, db))"

text \<open>
  The part of \<open>processApproval\<close> after the permission check: the switch, the
  \<open>event.update\<close>, the \<open>approvalStep.create\<close> and the notifications. In the update,
  \<open>rejectionReason\<close> is the comment for a rejection (an absent comment leaves the column
  as it is) and \<open>null\<close> otherwise.
\<close>

definition processPermitted ::
  "Store \<Rightarrow> Event \<Rightarrow> User \<Rightarrow> ApprovalContext \<Rightarrow> error + (ApprovalOutcome \<times> Store)" where
  "processPermitted db event approver ctx =
     (case switchAction db event ctx of
        Inl err \<Rightarrow> Inl err
      | Inr (None, db1) \<Rightarrow>
          Inr (\<lparr>po_success = False, po_nextStage = None,
                po_error = Some ''Invalid approval action''\<rparr>, db1)
      | Inr (Some t, db1) \<Rightarrow>
          (let db2 = db1\<lparr>db_event :=
                       map (\<lambda>row. if e_id row = ctx_eventId ctx
                                   then row\<lparr>e_approvalStage := tr_nextStage t,
                                            e_status := tr_eventStatus t,
                                            e_rejectionReason :=
                                              (if tr_action t = Action_REJECTED
                                               then (case tr_comments t of
                                                       None \<Rightarrow> e_rejectionReason row
                                                     | Some c \<Rightarrow> Some c)
                                               else None)\<rparr>
                                   else row)
                           (db_event db1)\<rparr>;
               db3 = db2\<lparr>db_approvalStep := db_approvalStep db2 @
                       [\<lparr>s_eventId = ctx_eventId ctx, s_approverId = ctx_approverId ctx,
                         s_stage = tr_nextStage t, s_action = tr_action t,
                         s_comments = tr_comments t\<rparr>]\<rparr>;
               db4 = sendApprovalNotifications db3 event (tr_action t) (tr_nextStage t)
                       approver (tr_comments t)
           in Inr (\<lparr>po_success = True, po_nextStage = Some (tr_nextStage t),
                     po_error = None\<rparr>, db4)))"

text \<open>
  \<open>ApprovalEngine.processApproval\<close>. A thrown error is \<open>Inl\<close>; the structured failure of
  the permission check is a returned outcome, with the store as it was.
\<close>

definition processApproval ::
  "Store \<Rightarrow> ApprovalContext \<Rightarrow> error + (ApprovalOutcome \<times> Store)" where
  "processApproval db ctx =
     (case find (\<lambda>e. e_id e = ctx_eventId ctx) (db_event db) of
        None \<Rightarrow> Inl (Error ''Event not found'')
      | Some event \<Rightarrow>
          (case find (\<lambda>u. u_id u = ctx_approverId ctx) (db_user db) of
             None \<Rightarrow> Inl (Error ''Approver not found'')
           | Some approver \<Rightarrow>
               (let canApprove = validateApprovalPermission
                      (u_role approver) (e_approvalStage event)
                      (u_schoolId approver) (u_departmentId approver)
                      (e_schoolId event) (e_departmentId event)
                in if \<not> canApprove then
                     Inr (\<lparr>po_success = False, po_nextStage = None,
                           po_error = Some ''Insufficient permissions to approve this event''\<rparr>,
                          db)
                   else processPermitted db event approver ctx)))"

section \<open>A sample store\<close>

text \<open>
  An event, ``Tech Fest'', for 50 participants in the window from 600 to 720, which has
  passed the institutional head, and an earlier approved event, ``Orientation'', from 660 to
  780. Two active venues with capacity 100 and 60, listed in that order, neither booked.
  Three resources: 20 chairs of which 15 are booked by the orientation, 2 projectors,
  3 microphones. The tech fest asks for 10 chairs, 1 projector and 5 microphones. The users
  are the coordinator of both events, a department head, a dean, the institutional head,
  and the user ``system'' under which the allocation engine records its steps.
\<close>

definition techFest :: Event where
  "techFest =
     \<lparr>e_id = ''ev1'', e_title = ''Tech Fest'', e_status = Status_SUBMITTED,
      e_approvalStage = Stage_HEAD_APPROVED, e_schoolId = ''s1'', e_departmentId = ''d1'',
      e_coordinatorId = ''u_coord'', e_participantCount = 50,
      e_venueTypePreference = None, e_scheduleStart = 600, e_scheduleEnd = 720,
      e_rejectionReason = None\<rparr>"

definition orientation :: Event where
  "orientation =
     \<lparr>e_id = ''ev0'', e_title = ''Orientation'', e_status = Status_APPROVED,
      e_approvalStage = Stage_APPROVED, e_schoolId = ''s1'', e_departmentId = ''d1'',
      e_coordinatorId = ''u_coord'', e_participantCount = 30,
      e_venueTypePreference = None, e_scheduleStart = 660, e_scheduleEnd = 780,
      e_rejectionReason = None\<rparr>"

definition mainHall :: Venue where
  "mainHall = \<lparr>v_id = ''v100'', v_name = ''Main Hall'', v_type = ''HALL'', v_capacity = 100,
                v_isActive = True, v_maintenanceMode = False\<rparr>"

definition seminarRoom :: Venue where
  "seminarRoom = \<lparr>v_id = ''v60'', v_name = ''Seminar Room'', v_type = ''SEMINAR'',
                   v_capacity = 60, v_isActive = True, v_maintenanceMode = False\<rparr>"

definition chairs :: Resource where
  "chairs = \<lparr>r_id = ''r_chairs'', r_name = ''Chairs'', r_totalQuantity = 20\<rparr>"

definition projectors :: Resource where
  "projectors = \<lparr>r_id = ''r_proj'', r_name = ''Projectors'', r_totalQuantity = 2\<rparr>"

definition microphones :: Resource where
  "microphones = \<lparr>r_id = ''r_mics'', r_name = ''Microphones'', r_totalQuantity = 3\<rparr>"

definition chairsRequest :: ResourceRequest where
  "chairsRequest = \<lparr>rq_id = ''q1'', rq_eventId = ''ev1'', rq_resourceId = ''r_chairs'',
                     rq_quantityNeeded = 10, rq_isAllocated = False,
                     rq_allocatedQuantity = None\<rparr>"

definition projectorRequest :: ResourceRequest where
  "projectorRequest = \<lparr>rq_id = ''q2'', rq_eventId = ''ev1'', rq_resourceId = ''r_proj'',
                        rq_quantityNeeded = 1, rq_isAllocated = False,
                        rq_allocatedQuantity = None\<rparr>"

definition microphoneRequest :: ResourceRequest where
  "microphoneRequest = \<lparr>rq_id = ''q3'', rq_eventId = ''ev1'', rq_resourceId = ''r_mics'',
                         rq_quantityNeeded = 5, rq_isAllocated = False,
                         rq_allocatedQuantity = None\<rparr>"

definition otherChairsBooking :: ResourceBooking where
  "otherChairsBooking = \<lparr>rb_resourceId = ''r_chairs'', rb_eventId = ''ev0'', rb_quantity = 15,
                          rb_startTime = 660, rb_endTime = 780, rb_status = ''confirmed''\<rparr>"

definition coordinatorUser :: User where
  "coordinatorUser = \<lparr>u_id = ''u_coord'', u_role = EVENT_COORDINATOR, u_schoolId = Some ''s1'',
                       u_departmentId = Some ''d1'', u_firstName = ''Kiran'',
                       u_lastName = ''Das'', u_isActive = True\<rparr>"

definition systemUser :: User where
  "systemUser = \<lparr>u_id = ''system'', u_role = ADMIN_ITC, u_schoolId = None,
                  u_departmentId = None, u_firstName = ''System'', u_lastName = ''Account'',
                  u_isActive = True\<rparr>"

definition hodUser :: User where
  "hodUser = \<lparr>u_id = ''u_hod'', u_role = HOD, u_schoolId = Some ''s1'',
               u_departmentId = Some ''d1'', u_firstName = ''Asha'', u_lastName = ''Rao'',
               u_isActive = True\<rparr>"

definition deanUser :: User where
  "deanUser = \<lparr>u_id = ''u_dean'', u_role = DEAN, u_schoolId = Some ''s1'',
                u_departmentId = None, u_firstName = ''Ravi'', u_lastName = ''Iyer'',
                u_isActive = True\<rparr>"

definition headUser :: User where
  "headUser = \<lparr>u_id = ''u_head'', u_role = INSTITUTIONAL_HEAD, u_schoolId = None,
                u_departmentId = None, u_firstName = ''Meena'', u_lastName = ''Nair'',
                u_isActive = True\<rparr>"

definition sampleStore :: Store where
  "sampleStore =
     \<lparr>db_event = [techFest, orientation],
      db_user = [coordinatorUser, hodUser, deanUser, headUser, systemUser],
      db_venue = [mainHall, seminarRoom],
      db_venueBooking = [],
      db_resource = [chairs, projectors, microphones],
      db_resourceRequest = [chairsRequest, projectorRequest, microphoneRequest],
      db_resourceBooking = [otherChairsBooking],
      db_approvalStep = [],
      db_notification = []\<rparr>"

text \<open>The same store with the event at another stage.\<close>

definition sampleStoreAt :: "ApprovalStage \<Rightarrow> Store" where
  "sampleStoreAt stage =
     sampleStore\<lparr>db_event := [techFest\<lparr>e_approvalStage := stage\<rparr>, orientation]\<rparr>"

text \<open>
  The same store where the event prefers an auditorium (neither venue is one) and asks for
  no resources.
\<close>

definition auditoriumStore :: Store where
  "auditoriumStore =
     sampleStore\<lparr>db_event := [techFest\<lparr>e_venueTypePreference := Some ''AUDITORIUM''\<rparr>,
                              orientation],
                 db_resourceRequest := []\<rparr>"

text \<open>
  The sample event as \<open>findUnique\<close> loads it from the sample store, each request joined
  with its resource.
\<close>

definition chairsRequestLoaded :: RequestWithResource where
  "chairsRequestLoaded =
     \<lparr>rq_id = ''q1'', rq_eventId = ''ev1'', rq_resourceId = ''r_chairs'',
      rq_quantityNeeded = 10, rq_isAllocated = False, rq_allocatedQuantity = None,
      rq_resource = chairs\<rparr>"

definition projectorRequestLoaded :: RequestWithResource where
  "projectorRequestLoaded =
     \<lparr>rq_id = ''q2'', rq_eventId = ''ev1'', rq_resourceId = ''r_proj'',
      rq_quantityNeeded = 1, rq_isAllocated = False, rq_allocatedQuantity = None,
      rq_resource = projectors\<rparr>"

definition microphoneRequestLoaded :: RequestWithResource where
  "microphoneRequestLoaded =
     \<lparr>rq_id = ''q3'', rq_eventId = ''ev1'', rq_resourceId = ''r_mics'',
      rq_quantityNeeded = 5, rq_isAllocated = False, rq_allocatedQuantity = None,
      rq_resource = microphones\<rparr>"

definition techFestLoaded :: EventWithRequests where
  "techFestLoaded =
     \<lparr>e_id = ''ev1'', e_title = ''Tech Fest'', e_status = Status_SUBMITTED,
      e_approvalStage = Stage_HEAD_APPROVED, e_schoolId = ''s1'', e_departmentId = ''d1'',
      e_coordinatorId = ''u_coord'', e_participantCount = 50,
      e_venueTypePreference = None, e_scheduleStart = 600, e_scheduleEnd = 720,
      e_rejectionReason = None,
      e_resourceRequests =
        [chairsRequestLoaded, projectorRequestLoaded, microphoneRequestLoaded]\<rparr>"

text \<open>
  What allocating the sample event's resources leaves behind: the projector request is
  satisfied, so its booking is written and its request row marked; chairs and microphones
  are short.
\<close>

definition projectorBooking :: ResourceBooking where
  "projectorBooking = \<lparr>rb_resourceId = ''r_proj'', rb_eventId = ''ev1'', rb_quantity = 1,
                        rb_startTime = 600, rb_endTime = 720, rb_status = ''confirmed''\<rparr>"

definition withProjectorBooked :: "Store \<Rightarrow> Store" where
  "withProjectorBooked db =
     db\<lparr>db_resourceBooking := db_resourceBooking db @ [projectorBooking],
        db_resourceRequest :=
          [chairsRequest,
           projectorRequest\<lparr>rq_isAllocated := True, rq_allocatedQuantity := Some 1\<rparr>,
           microphoneRequest]\<rparr>"

definition seminarRoomBooking :: VenueBooking where
  "seminarRoomBooking = \<lparr>vb_venueId = ''v60'', vb_eventId = ''ev1'', vb_startTime = 600,
                          vb_endTime = 720, vb_status = ''confirmed''\<rparr>"

definition withSeminarRoomBooked :: "Store \<Rightarrow> Store" where
  "withSeminarRoomBooked db = db\<lparr>db_venueBooking := db_venueBooking db @ [seminarRoomBooking]\<rparr>"

definition chairsShortage :: AllocationConflict where
  "chairsShortage =
     \<lparr>c_type = resource_shortage, c_conflictingEventIds = [''ev0''],
      c_details = ''Chairs: Need 10, only 5 available (15 already booked)'',
      c_suggestions = Some [''Reduce quantity requirement'', ''Choose different time slot'',
                            ''Find alternative resources'']\<rparr>"

definition microphonesShortage :: AllocationConflict where
  "microphonesShortage =
     \<lparr>c_type = resource_shortage, c_conflictingEventIds = [],
      c_details = ''Microphones: Need 5, only 3 available (0 already booked)'',
      c_suggestions = Some [''Reduce quantity requirement'', ''Choose different time slot'',
                            ''Find alternative resources'']\<rparr>"

text \<open>
  The sample store with the event at a given stage and asking only for the projector, so
  that the allocation can succeed; and two approval requests without comments.
\<close>

definition feasibleStoreAt :: "ApprovalStage \<Rightarrow> Store" where
  "feasibleStoreAt stage =
     sampleStore\<lparr>db_event := [techFest\<lparr>e_approvalStage := stage\<rparr>, orientation],
                 db_resourceRequest := [projectorRequest]\<rparr>"

definition headApproves :: ApprovalContext where
  "headApproves = \<lparr>ctx_approverId = ''u_head'', ctx_action = Action_APPROVED,
                    ctx_comments = None, ctx_eventId = ''ev1''\<rparr>"

definition deanApproves :: ApprovalContext where
  "deanApproves = \<lparr>ctx_approverId = ''u_dean'', ctx_action = Action_APPROVED,
                    ctx_comments = None, ctx_eventId = ''ev1''\<rparr>"

section \<open>The stage chain\<close>

text \<open>
  Claim C9. The stage-successor function follows the fixed linear chain: Draft goes to
  Submitted, Submitted to HodApproved, HodApproved to DeanApproved, DeanApproved to
  HeadApproved, HeadApproved to Approved; ModificationRequired goes back to Submitted;
  Approved and Rejected are fixed points, and stay so under any number of further steps.
\<close>

theorem getNextApprovalStage_chain:
  "getNextApprovalStage Stage_DRAFT = Stage_SUBMITTED
   \<and> getNextApprovalStage Stage_SUBMITTED = Stage_HOD_APPROVED
   \<and> getNextApprovalStage Stage_HOD_APPROVED = Stage_DEAN_APPROVED
   \<and> getNextApprovalStage Stage_DEAN_APPROVED = Stage_HEAD_APPROVED
   \<and> getNextApprovalStage Stage_HEAD_APPROVED = Stage_APPROVED
   \<and> getNextApprovalStage Stage_MODIFICATION_REQUIRED = Stage_SUBMITTED
   \<and> (getNextApprovalStage ^^ n) Stage_APPROVED = Stage_APPROVED
   \<and> (getNextApprovalStage ^^ n) Stage_REJECTED = Stage_REJECTED"
proof -
  have "(getNextApprovalStage ^^ n) Stage_APPROVED = Stage_APPROVED"
    by (induction n) simp_all
  moreover have "(getNextApprovalStage ^^ n) Stage_REJECTED = Stage_REJECTED"
    by (induction n) simp_all
  ultimately show ?thesis by simp
qed


section \<open>Facts about the sample store\<close>

lemmas sample_defs = sampleStore_def techFest_def mainHall_def seminarRoom_def chairs_def
  projectors_def microphones_def chairsRequest_def projectorRequest_def microphoneRequest_def
  otherChairsBooking_def hodUser_def deanUser_def headUser_def orientation_def
  coordinatorUser_def systemUser_def

lemmas loaded_defs = techFestLoaded_def chairsRequestLoaded_def projectorRequestLoaded_def
  microphoneRequestLoaded_def

section \<open>Venue selection\<close>

lemma bookFirstFreeVenue_skip:
  "list_all (\<lambda>u. confirmedVenueBookingsInWindow db (v_id u) event \<noteq> []) pre
   \<Longrightarrow> bookFirstFreeVenue db event (pre @ rest) = bookFirstFreeVenue db event rest"
  by (induction pre) simp_all

lemma bookFirstFreeVenue_none:
  "list_all (\<lambda>u. confirmedVenueBookingsInWindow db (v_id u) event \<noteq> []) vs
   \<Longrightarrow> bookFirstFreeVenue db event vs = None"
  by (induction vs) simp_all

lemma candidateVenues_sorted:
  "sorted (map (\<lambda>v. (v_capacity v, v_name v)) (candidateVenues db event))"
  by (simp add: candidateVenues_def)

lemma candidateVenues_set:
  "set (candidateVenues db event) =
     {v \<in> set (db_venue db). v_isActive v \<and> \<not> v_maintenanceMode v
         \<and> e_participantCount event \<le> v_capacity v \<and> venueMatchesPreference event v}"
  by (auto simp: candidateVenues_def)

lemma allocateVenue_books_first_free:
  assumes "candidateVenues db event = pre @ venue # post"
    and "list_all (\<lambda>u. confirmedVenueBookingsInWindow db (v_id u) event \<noteq> []) pre"
    and "confirmedVenueBookingsInWindow db (v_id venue) event = []"
  shows "allocateVenue db event =
     (\<lparr>va_success = True, va_venueId = Some (v_id venue), va_conflicts = None,
       va_explanation = ''Allocated venue: '' @ v_name venue\<rparr>,
      db\<lparr>db_venueBooking := db_venueBooking db @
           [\<lparr>vb_venueId = v_id venue, vb_eventId = e_id event,
             vb_startTime = e_scheduleStart event, vb_endTime = e_scheduleEnd event,
             vb_status = ''confirmed''\<rparr>]\<rparr>)"
proof -
  have "bookFirstFreeVenue db event (pre @ venue # post)
          = bookFirstFreeVenue db event (venue # post)"
    using assms(2) by (rule bookFirstFreeVenue_skip)
  then show ?thesis
    using assms(1,3) by (simp add: allocateVenue_def Let_def)
qed

lemma allocateVenue_all_booked:
  assumes "list_all (\<lambda>u. confirmedVenueBookingsInWindow db (v_id u) event \<noteq> [])
             (candidateVenues db event)"
  shows "\<not> va_success (fst (allocateVenue db event)) \<and> snd (allocateVenue db event) = db"
  using bookFirstFreeVenue_none [OF assms]
  by (simp add: allocateVenue_def Let_def)

lemma candidateVenues_two:
  assumes "db_venue db = [a, b] \<or> db_venue db = [b, a]"
    and "v_capacity a = 60" "v_capacity b = 100"
    and "v_isActive a" "v_isActive b" "\<not> v_maintenanceMode a" "\<not> v_maintenanceMode b"
    and "e_participantCount event = 50"
    and "venueMatchesPreference event a" "venueMatchesPreference event b"
  shows "candidateVenues db event = [a, b]"
  using assms by (auto simp: candidateVenues_def less_eq_prod_def)

text \<open>
  Claim C4. The candidates of venue selection are exactly the active venues that are not in
  maintenance, hold the participant count, and match the venue type when the event states
  one; they are walked by capacity, then name, ascending. The first candidate with no
  confirmed booking overlapping the event's window is booked, and when every candidate has
  one the allocation fails and writes nothing. With two free active venues of capacity 60
  and 100, 50 participants and no type preference, the venue of capacity 60 is booked.
\<close>

theorem allocateVenue_first_fit:
  "sorted (map (\<lambda>v. (v_capacity v, v_name v)) (candidateVenues db event))
   \<and> set (candidateVenues db event) =
       {v \<in> set (db_venue db). v_isActive v \<and> \<not> v_maintenanceMode v
           \<and> e_participantCount event \<le> v_capacity v
           \<and> (case e_venueTypePreference event of
                 None \<Rightarrow> True | Some t \<Rightarrow> t = [] \<or> v_type v = t)}
   \<and> (\<forall>pre venue post.
         candidateVenues db event = pre @ venue # post
         \<and> (\<forall>u \<in> set pre. confirmedVenueBookingsInWindow db (v_id u) event \<noteq> [])
         \<and> confirmedVenueBookingsInWindow db (v_id venue) event = []
         \<longrightarrow> allocateVenue db event =
               (\<lparr>va_success = True, va_venueId = Some (v_id venue), va_conflicts = None,
                 va_explanation = ''Allocated venue: '' @ v_name venue\<rparr>,
                db\<lparr>db_venueBooking := db_venueBooking db @
                     [\<lparr>vb_venueId = v_id venue, vb_eventId = e_id event,
                       vb_startTime = e_scheduleStart event,
                       vb_endTime = e_scheduleEnd event,
                       vb_status = ''confirmed''\<rparr>]\<rparr>))
   \<and> ((\<forall>u \<in> set (candidateVenues db event).
          confirmedVenueBookingsInWindow db (v_id u) event \<noteq> [])
        \<longrightarrow> \<not> va_success (fst (allocateVenue db event))
            \<and> snd (allocateVenue db event) = db)
   \<and> (\<forall>a b.
         (db_venue db = [a, b] \<or> db_venue db = [b, a])
         \<and> v_capacity a = 60 \<and> v_capacity b = 100
         \<and> v_isActive a \<and> v_isActive b
         \<and> \<not> v_maintenanceMode a \<and> \<not> v_maintenanceMode b
         \<and> e_participantCount event = 50
         \<and> e_venueTypePreference event = None
         \<and> confirmedVenueBookingsInWindow db (v_id a) event = []
         \<and> confirmedVenueBookingsInWindow db (v_id b) event = []
         \<longrightarrow> va_venueId (fst (allocateVenue db event)) = Some (v_id a)
             \<and> db_venueBooking (snd (allocateVenue db event)) =
                 db_venueBooking db @
                   [\<lparr>vb_venueId = v_id a, vb_eventId = e_id event,
                     vb_startTime = e_scheduleStart event,
                     vb_endTime = e_scheduleEnd event,
                     vb_status = ''confirmed''\<rparr>])"
proof (intro conjI allI impI)
  show "sorted (map (\<lambda>v. (v_capacity v, v_name v)) (candidateVenues db event))"
    by (rule candidateVenues_sorted)
next
  show "set (candidateVenues db event) =
       {v \<in> set (db_venue db). v_isActive v \<and> \<not> v_maintenanceMode v
           \<and> e_participantCount event \<le> v_capacity v
           \<and> (case e_venueTypePreference event of
                 None \<Rightarrow> True | Some t \<Rightarrow> t = [] \<or> v_type v = t)}"
    unfolding candidateVenues_set
    by (auto simp: venueMatchesPreference_def split: option.splits if_splits)
next
  fix pre venue post
  assume h: "candidateVenues db event = pre @ venue # post
         \<and> (\<forall>u \<in> set pre. confirmedVenueBookingsInWindow db (v_id u) event \<noteq> [])
         \<and> confirmedVenueBookingsInWindow db (v_id venue) event = []"
  then have "list_all (\<lambda>u. confirmedVenueBookingsInWindow db (v_id u) event \<noteq> []) pre"
    by (simp add: list_all_iff)
  with h show "allocateVenue db event =
               (\<lparr>va_success = True, va_venueId = Some (v_id venue), va_conflicts = None,
                 va_explanation = ''Allocated venue: '' @ v_name venue\<rparr>,
                db\<lparr>db_venueBooking := db_venueBooking db @
                     [\<lparr>vb_venueId = v_id venue, vb_eventId = e_id event,
                       vb_startTime = e_scheduleStart event,
                       vb_endTime = e_scheduleEnd event,
                       vb_status = ''confirmed''\<rparr>]\<rparr>)"
    by (simp add: allocateVenue_books_first_free)
next
  assume "\<forall>u \<in> set (candidateVenues db event).
          confirmedVenueBookingsInWindow db (v_id u) event \<noteq> []"
  then have all: "list_all (\<lambda>u. confirmedVenueBookingsInWindow db (v_id u) event \<noteq> [])
             (candidateVenues db event)"
    by (simp add: list_all_iff)
  show "\<not> va_success (fst (allocateVenue db event))"
    using allocateVenue_all_booked [OF all] by simp
  show "snd (allocateVenue db event) = db"
    using allocateVenue_all_booked [OF all] by simp
next
  fix a b
  assume h: "(db_venue db = [a, b] \<or> db_venue db = [b, a])
         \<and> v_capacity a = 60 \<and> v_capacity b = 100
         \<and> v_isActive a \<and> v_isActive b
         \<and> \<not> v_maintenanceMode a \<and> \<not> v_maintenanceMode b
         \<and> e_participantCount event = 50
         \<and> e_venueTypePreference event = None
         \<and> confirmedVenueBookingsInWindow db (v_id a) event = []
         \<and> confirmedVenueBookingsInWindow db (v_id b) event = []"
  then have "candidateVenues db event = [a, b]"
    using candidateVenues_two [of db a b event]
    by (simp add: venueMatchesPreference_def)
  then have r: "allocateVenue db event =
     (\<lparr>va_success = True, va_venueId = Some (v_id a), va_conflicts = None,
       va_explanation = ''Allocated venue: '' @ v_name a\<rparr>,
      db\<lparr>db_venueBooking := db_venueBooking db @
           [\<lparr>vb_venueId = v_id a, vb_eventId = e_id event,
             vb_startTime = e_scheduleStart event, vb_endTime = e_scheduleEnd event,
             vb_status = ''confirmed''\<rparr>]\<rparr>)"
    using h allocateVenue_books_first_free [of db event "[]" a "[b]"] by simp
  show "va_venueId (fst (allocateVenue db event)) = Some (v_id a)"
    by (simp add: r)
  show "db_venueBooking (snd (allocateVenue db event)) =
                 db_venueBooking db @
                   [\<lparr>vb_venueId = v_id a, vb_eventId = e_id event,
                     vb_startTime = e_scheduleStart event,
                     vb_endTime = e_scheduleEnd event,
                     vb_status = ''confirmed''\<rparr>]"
    by (simp add: r)
qed

theorem allocateVenue_first_fit_witness:
  "(db_venue sampleStore = [seminarRoom, mainHall] \<or> db_venue sampleStore = [mainHall, seminarRoom])
   \<and> v_capacity seminarRoom = 60 \<and> v_capacity mainHall = 100
   \<and> v_isActive seminarRoom \<and> v_isActive mainHall
   \<and> \<not> v_maintenanceMode seminarRoom \<and> \<not> v_maintenanceMode mainHall
   \<and> e_participantCount techFestLoaded = 50
   \<and> e_venueTypePreference techFestLoaded = None
   \<and> confirmedVenueBookingsInWindow sampleStore (v_id seminarRoom) techFestLoaded = []
   \<and> confirmedVenueBookingsInWindow sampleStore (v_id mainHall) techFestLoaded = []
   \<and> va_venueId (fst (allocateVenue sampleStore techFestLoaded)) = Some ''v60''
   \<and> db_venueBooking (snd (allocateVenue sampleStore techFestLoaded)) =
        [\<lparr>vb_venueId = ''v60'', vb_eventId = ''ev1'', vb_startTime = 600, vb_endTime = 720,
          vb_status = ''confirmed''\<rparr>]"
proof -
  have v: "db_venue sampleStore = [mainHall, seminarRoom]" "db_venueBooking sampleStore = []"
    by (simp_all add: sampleStore_def)
  have c: "v_capacity seminarRoom = 60" "v_capacity mainHall = 100"
    "v_isActive seminarRoom" "v_isActive mainHall"
    "\<not> v_maintenanceMode seminarRoom" "\<not> v_maintenanceMode mainHall"
    "v_id seminarRoom = ''v60''"
    by (simp_all add: seminarRoom_def mainHall_def)
  have e: "e_participantCount techFestLoaded = 50" "e_venueTypePreference techFestLoaded = None"
    "e_id techFestLoaded = ''ev1''" "e_scheduleStart techFestLoaded = 600"
    "e_scheduleEnd techFestLoaded = 720"
    by (simp_all add: techFestLoaded_def)
  have f: "confirmedVenueBookingsInWindow sampleStore venueId techFestLoaded = []" for venueId
    by (simp add: confirmedVenueBookingsInWindow_def v)
  note scenario = allocateVenue_first_fit [of sampleStore techFestLoaded,
      THEN conjunct2, THEN conjunct2, THEN conjunct2, THEN conjunct2, rule_format,
      of seminarRoom mainHall]
  have "va_venueId (fst (allocateVenue sampleStore techFestLoaded)) = Some (v_id seminarRoom)
        \<and> db_venueBooking (snd (allocateVenue sampleStore techFestLoaded)) =
            db_venueBooking sampleStore @
              [\<lparr>vb_venueId = v_id seminarRoom, vb_eventId = e_id techFestLoaded,
                vb_startTime = e_scheduleStart techFestLoaded,
                vb_endTime = e_scheduleEnd techFestLoaded,
                vb_status = ''confirmed''\<rparr>]"
    by (rule scenario) (simp add: v c e f)
  then show ?thesis
    by (simp add: v c e f)
qed

section \<open>One resource request\<close>

lemma foldl_add_quantity:
  "foldl (\<lambda>sum booking. sum + rb_quantity booking) acc bs = acc + sum_list (map rb_quantity bs)"
  by (induction bs arbitrary: acc) simp_all

lemma bookedQuantity_sum_list:
  "foldl (\<lambda>sum booking. sum + rb_quantity booking) 0 bs = sum_list (map rb_quantity bs)"
  by (simp add: foldl_add_quantity)

lemma showInt_small:
  "showInt 1 = ''1''" "showInt 2 = ''2''" "showInt 3 = ''3''" "showInt 5 = ''5''"
  "showInt 10 = ''10''" "showInt 15 = ''15''" "showInt 50 = ''50''"
  by (simp_all add: showInt_def showNat.simps digitChar_def)

text \<open>
  Claim C5. For a resource request, the available quantity is the resource's total quantity
  minus the sum of the quantities of the confirmed bookings of that resource overlapping the
  event's window. When it covers the request, a confirmed booking for exactly the requested
  quantity is created and the request row is marked allocated with that quantity; otherwise
  the store is left alone and a \<open>resource_shortage\<close> conflict is recorded, with the
  shortfall numbers in its detail and the event ids of the overlapping bookings. With a
  total of 20, 15 booked and 10 requested the detail reads ``Need 10, only 5 available''.
\<close>

theorem allocateResourceRequest_by_availability:
  "(let resource = rq_resource resourceRequest;
        overlapping = confirmedResourceBookingsInWindow db (r_id resource) event;
        booked = sum_list (map rb_quantity overlapping);
        available = r_totalQuantity resource - booked;
        requested = rq_quantityNeeded resourceRequest
    in (available \<ge> requested \<longrightarrow>
          allocateResourceRequest db event resourceRequest =
            (db\<lparr>db_resourceBooking := db_resourceBooking db @
                   [\<lparr>rb_resourceId = r_id resource, rb_eventId = e_id event,
                     rb_quantity = requested,
                     rb_startTime = e_scheduleStart event, rb_endTime = e_scheduleEnd event,
                     rb_status = ''confirmed''\<rparr>],
                db_resourceRequest :=
                   map (\<lambda>row. if rq_id row = rq_id resourceRequest
                               then row\<lparr>rq_isAllocated := True,
                                        rq_allocatedQuantity := Some requested\<rparr>
                               else row)
                       (db_resourceRequest db)\<rparr>,
             Inr \<lparr>ra_resourceId = r_id resource, ra_allocatedQuantity = requested\<rparr>))
     \<and> (available < requested \<longrightarrow>
          allocateResourceRequest db event resourceRequest =
            (db,
             Inl \<lparr>c_type = resource_shortage,
                  c_conflictingEventIds = map rb_eventId overlapping,
                  c_details = r_name resource @ '': Need '' @ showInt requested
                              @ '', only '' @ showInt available
                              @ '' available ('' @ showInt booked @ '' already booked)'',
                  c_suggestions = Some [''Reduce quantity requirement'',
                                        ''Choose different time slot'',
                                        ''Find alternative resources'']\<rparr>))
     \<and> (r_totalQuantity resource = 20 \<and> booked = 15 \<and> requested = 10 \<longrightarrow>
          (\<exists>conflict.
             allocateResourceRequest db event resourceRequest = (db, Inl conflict)
             \<and> c_type conflict = resource_shortage
             \<and> c_conflictingEventIds conflict = map rb_eventId overlapping
             \<and> c_details conflict =
                 r_name resource @ '': Need 10, only 5 available (15 already booked)'')))"
  by (simp add: allocateResourceRequest_def Let_def bookedQuantity_sum_list showInt_small)

lemma overlapping_chairs_sample:
  "confirmedResourceBookingsInWindow sampleStore ''r_chairs'' techFestLoaded
     = [otherChairsBooking]"
  by (simp add: confirmedResourceBookingsInWindow_def sample_defs techFestLoaded_def)

lemma overlapping_projectors_sample:
  "confirmedResourceBookingsInWindow sampleStore ''r_proj'' techFestLoaded = []"
  by (simp add: confirmedResourceBookingsInWindow_def sample_defs techFestLoaded_def)

theorem allocateResourceRequest_by_availability_witness:
  "r_totalQuantity (rq_resource chairsRequestLoaded) = 20
   \<and> sum_list (map rb_quantity
        (confirmedResourceBookingsInWindow sampleStore
           (r_id (rq_resource chairsRequestLoaded)) techFestLoaded)) = 15
   \<and> rq_quantityNeeded chairsRequestLoaded = 10
   \<and> (\<exists>conflict.
        allocateResourceRequest sampleStore techFestLoaded chairsRequestLoaded
          = (sampleStore, Inl conflict)
        \<and> c_type conflict = resource_shortage
        \<and> c_conflictingEventIds conflict = [''ev0'']
        \<and> c_details conflict = ''Chairs: Need 10, only 5 available (15 already booked)'')
   \<and> r_totalQuantity (rq_resource projectorRequestLoaded) - 0
        \<ge> rq_quantityNeeded projectorRequestLoaded
   \<and> snd (allocateResourceRequest sampleStore techFestLoaded projectorRequestLoaded)
        = Inr \<lparr>ra_resourceId = ''r_proj'', ra_allocatedQuantity = 1\<rparr>
   \<and> db_resourceBooking
        (fst (allocateResourceRequest sampleStore techFestLoaded projectorRequestLoaded))
        = db_resourceBooking sampleStore @
          [\<lparr>rb_resourceId = ''r_proj'', rb_eventId = ''ev1'', rb_quantity = 1,
            rb_startTime = 600, rb_endTime = 720, rb_status = ''confirmed''\<rparr>]"
proof -
  have c: "rq_resource chairsRequestLoaded = chairs" "rq_quantityNeeded chairsRequestLoaded = 10"
    "r_totalQuantity chairs = 20" "r_id chairs = ''r_chairs''" "r_name chairs = ''Chairs''"
    "rb_quantity otherChairsBooking = 15" "rb_eventId otherChairsBooking = ''ev0''"
    by (simp_all add: chairsRequestLoaded_def chairs_def otherChairsBooking_def)
  have p: "rq_resource projectorRequestLoaded = projectors"
    "rq_quantityNeeded projectorRequestLoaded = 1"
    "r_totalQuantity projectors = 2" "r_id projectors = ''r_proj''"
    by (simp_all add: projectorRequestLoaded_def projectors_def)
  have e: "e_id techFestLoaded = ''ev1''" "e_scheduleStart techFestLoaded = 600"
    "e_scheduleEnd techFestLoaded = 720"
    by (simp_all add: techFestLoaded_def)
  show ?thesis
    using allocateResourceRequest_by_availability
            [of chairsRequestLoaded sampleStore techFestLoaded]
          allocateResourceRequest_by_availability
            [of projectorRequestLoaded sampleStore techFestLoaded]
    by (simp add: Let_def c p e overlapping_chairs_sample overlapping_projectors_sample
          showInt_small)
qed

section \<open>Allocating on the sample store\<close>

lemma techFestLoaded_fields:
  "e_id techFestLoaded = ''ev1''" "e_scheduleStart techFestLoaded = 600"
  "e_scheduleEnd techFestLoaded = 720" "e_participantCount techFestLoaded = 50"
  "e_venueTypePreference techFestLoaded = None"
  "e_approvalStage techFestLoaded = Stage_HEAD_APPROVED"
  "e_resourceRequests techFestLoaded =
     [chairsRequestLoaded, projectorRequestLoaded, microphoneRequestLoaded]"
  by (simp_all add: techFestLoaded_def)

lemma sampleStore_tables:
  "db_event sampleStore = [techFest, orientation]"
  "db_user sampleStore = [coordinatorUser, hodUser, deanUser, headUser, systemUser]"
  "db_venue sampleStore = [mainHall, seminarRoom]"
  "db_venueBooking sampleStore = []"
  "db_resource sampleStore = [chairs, projectors, microphones]"
  "db_resourceRequest sampleStore = [chairsRequest, projectorRequest, microphoneRequest]"
  "db_resourceBooking sampleStore = [otherChairsBooking]"
  "db_approvalStep sampleStore = []"
  "db_notification sampleStore = []"
  by (simp_all add: sampleStore_def)

lemma allocate_chairs_sample:
  "db_resourceBooking db = [otherChairsBooking] \<Longrightarrow>
   allocateResourceRequest db techFestLoaded chairsRequestLoaded = (db, Inl chairsShortage)"
  by (simp add: allocateResourceRequest_def Let_def confirmedResourceBookingsInWindow_def
        techFestLoaded_fields chairsRequestLoaded_def chairs_def otherChairsBooking_def
        chairsShortage_def showInt_small)

lemma allocate_projector_sample:
  "db_resourceBooking db = [otherChairsBooking] \<Longrightarrow>
   db_resourceRequest db = [chairsRequest, projectorRequest, microphoneRequest] \<Longrightarrow>
   allocateResourceRequest db techFestLoaded projectorRequestLoaded =
     (withProjectorBooked db, Inr \<lparr>ra_resourceId = ''r_proj'', ra_allocatedQuantity = 1\<rparr>)"
  by (simp add: allocateResourceRequest_def Let_def confirmedResourceBookingsInWindow_def
        techFestLoaded_fields projectorRequestLoaded_def projectors_def otherChairsBooking_def
        withProjectorBooked_def projectorBooking_def chairsRequest_def projectorRequest_def
        microphoneRequest_def)

lemma allocate_microphones_sample:
  "db_resourceBooking db = [otherChairsBooking, projectorBooking] \<Longrightarrow>
   allocateResourceRequest db techFestLoaded microphoneRequestLoaded =
     (db, Inl microphonesShortage)"
  by (simp add: allocateResourceRequest_def Let_def confirmedResourceBookingsInWindow_def
        techFestLoaded_fields microphoneRequestLoaded_def microphones_def otherChairsBooking_def
        projectorBooking_def microphonesShortage_def showInt_small showInt_def showNat.simps digitChar_def)

lemma allocateResourcesLoop_sample:
  assumes "db_resourceBooking db = [otherChairsBooking]"
    and "db_resourceRequest db = [chairsRequest, projectorRequest, microphoneRequest]"
  shows "allocateResourcesLoop db techFestLoaded (e_resourceRequests techFestLoaded) [] [] =
     (withProjectorBooked db, [\<lparr>ra_resourceId = ''r_proj'', ra_allocatedQuantity = 1\<rparr>],
      [chairsShortage, microphonesShortage])"
proof -
  have "db_resourceBooking (withProjectorBooked db) = [otherChairsBooking, projectorBooking]"
    using assms by (simp add: withProjectorBooked_def)
  then show ?thesis
    using assms
    by (simp add: techFestLoaded_fields allocate_chairs_sample allocate_projector_sample
          allocate_microphones_sample)
qed

lemma allocateResources_sample:
  assumes "db_resourceBooking db = [otherChairsBooking]"
    and "db_resourceRequest db = [chairsRequest, projectorRequest, microphoneRequest]"
  shows "allocateResources db techFestLoaded =
     (\<lparr>rs_success = False, rs_allocations = None,
       rs_conflicts = Some [chairsShortage, microphonesShortage],
       rs_explanation = ''Failed to allocate 2 resources''\<rparr>,
      withProjectorBooked db)"
  using assms
  by (simp add: allocateResources_def allocateResourcesLoop_sample showNat.simps digitChar_def)

section \<open>All resource requests\<close>

lemma allocateResourcesLoop_append:
  "allocateResourcesLoop db event (xs @ ys) allocations conflicts =
     (case allocateResourcesLoop db event xs allocations conflicts of
        (db', allocations', conflicts') \<Rightarrow>
          allocateResourcesLoop db' event ys allocations' conflicts')"
  by (induction xs arbitrary: db allocations conflicts)
     (simp_all split: prod.splits sum.splits)

lemma allocateResourcesLoop_conflicts:
  "snd (snd (allocateResourcesLoop db event rqs [] [])) =
     concat (map (\<lambda>i. case snd (allocateResourceRequest
                  (fst (allocateResourcesLoop db event (take i rqs) [] [])) event (rqs ! i)) of
        Inl conflict \<Rightarrow> [conflict] | Inr allocation \<Rightarrow> []) [0..<length rqs])"
proof -
  define entry where "entry = (\<lambda>xs i.
     case snd (allocateResourceRequest
                 (fst (allocateResourcesLoop db event (take i xs) [] [])) event (xs ! i)) of
       Inl conflict \<Rightarrow> [conflict] | Inr allocation \<Rightarrow> [])"
  have "snd (snd (allocateResourcesLoop db event rqs [] [])) =
          concat (map (entry rqs) [0..<length rqs])"
  proof (induction rqs rule: rev_induct)
    case Nil
    show ?case by simp
  next
    case (snoc rq rqs)
    obtain db1 al1 cf1 where pre: "allocateResourcesLoop db event rqs [] [] = (db1, al1, cf1)"
      by (cases "allocateResourcesLoop db event rqs [] []")
    obtain db2 outcome where step: "allocateResourceRequest db1 event rq = (db2, outcome)"
      by (cases "allocateResourceRequest db1 event rq")
    have last: "snd (snd (allocateResourcesLoop db event (rqs @ [rq]) [] [])) =
        cf1 @ (case outcome of Inl conflict \<Rightarrow> [conflict] | Inr allocation \<Rightarrow> [])"
      by (simp add: allocateResourcesLoop_append pre step split: sum.splits)
    have earlier: "map (entry (rqs @ [rq])) [0..<length rqs] = map (entry rqs) [0..<length rqs]"
      by (rule map_cong) (simp_all add: entry_def nth_append)
    have final: "entry (rqs @ [rq]) (length rqs) =
        (case outcome of Inl conflict \<Rightarrow> [conflict] | Inr allocation \<Rightarrow> [])"
      by (simp add: entry_def pre step)
    show ?case
      using snoc.IH by (simp add: last earlier final pre)
  qed
  then show ?thesis
    by (simp add: entry_def)
qed

lemma allocateResourceRequest_outcome:
  "snd (allocateResourceRequest db event rq) =
     (if r_totalQuantity (rq_resource rq)
           - sum_list (map rb_quantity
               (confirmedResourceBookingsInWindow db (r_id (rq_resource rq)) event))
         < rq_quantityNeeded rq
      then Inl \<lparr>c_type = resource_shortage,
                c_conflictingEventIds =
                  map rb_eventId
                    (confirmedResourceBookingsInWindow db (r_id (rq_resource rq)) event),
                c_details = r_name (rq_resource rq) @ '': Need ''
                    @ showInt (rq_quantityNeeded rq) @ '', only ''
                    @ showInt (r_totalQuantity (rq_resource rq)
                        - sum_list (map rb_quantity
                            (confirmedResourceBookingsInWindow db (r_id (rq_resource rq)) event)))
                    @ '' available (''
                    @ showInt (sum_list (map rb_quantity
                        (confirmedResourceBookingsInWindow db (r_id (rq_resource rq)) event)))
                    @ '' already booked)'',
                c_suggestions = Some [''Reduce quantity requirement'',
                                      ''Choose different time slot'',
                                      ''Find alternative resources'']\<rparr>
      else Inr \<lparr>ra_resourceId = r_id (rq_resource rq),
                ra_allocatedQuantity = rq_quantityNeeded rq\<rparr>)"
  by (simp add: allocateResourceRequest_def Let_def bookedQuantity_sum_list)

lemma length_concat_entries:
  "(\<And>i. i \<in> set xs \<Longrightarrow> length (entry i) = (if short i then 1 else 0))
   \<Longrightarrow> length (concat (map entry xs)) = length (filter short xs)"
  by (induction xs) simp_all

text \<open>
  Claim C6. Resource allocation examines every request before it decides. Request \<open>i\<close>
  is judged in the store left by the requests before it, and is short when the available
  quantity there is below the requested one. The allocation succeeds exactly when no request
  is short; when it fails, the returned conflicts are, in request order, one
  \<open>resource_shortage\<close> entry for each short request and nothing for the others, so their
  number is the number of short requests.
\<close>

theorem allocateResources_reports_every_shortage:
  "(let requests = e_resourceRequests event;
        storeBefore = (\<lambda>i. fst (allocateResourcesLoop db event (take i requests) [] []));
        short = (\<lambda>i. r_totalQuantity (rq_resource (requests ! i))
                       - sum_list (map rb_quantity
                           (confirmedResourceBookingsInWindow (storeBefore i)
                              (r_id (rq_resource (requests ! i))) event))
                     < rq_quantityNeeded (requests ! i));
        entry = (\<lambda>i. case snd (allocateResourceRequest (storeBefore i) event (requests ! i)) of
                        Inl conflict \<Rightarrow> [conflict] | Inr allocation \<Rightarrow> []);
        result = fst (allocateResources db event)
    in (rs_success result \<longleftrightarrow> (\<forall>i < length requests. \<not> short i))
     \<and> (\<forall>i < length requests. short i \<longrightarrow>
           (\<exists>conflict. entry i = [conflict] \<and> c_type conflict = resource_shortage))
     \<and> (\<forall>i < length requests. \<not> short i \<longrightarrow> entry i = [])
     \<and> (\<not> rs_success result \<longrightarrow>
           (\<exists>conflicts. rs_conflicts result = Some conflicts
              \<and> conflicts = concat (map entry [0..<length requests])
              \<and> length conflicts = length (filter short [0..<length requests]))))"
proof -
  define requests where "requests = e_resourceRequests event"
  define storeBefore where
    "storeBefore = (\<lambda>i. fst (allocateResourcesLoop db event (take i requests) [] []))"
  define short where
    "short = (\<lambda>i. r_totalQuantity (rq_resource (requests ! i))
                       - sum_list (map rb_quantity
                           (confirmedResourceBookingsInWindow (storeBefore i)
                              (r_id (rq_resource (requests ! i))) event))
                     < rq_quantityNeeded (requests ! i))"
  define entry where
    "entry = (\<lambda>i. case snd (allocateResourceRequest (storeBefore i) event (requests ! i)) of
                        Inl conflict \<Rightarrow> [conflict] | Inr allocation \<Rightarrow> [])"
  define result where "result = fst (allocateResources db event)"
  have entry_short: "\<exists>conflict. entry i = [conflict] \<and> c_type conflict = resource_shortage"
    if "short i" for i
    using that by (simp add: entry_def short_def allocateResourceRequest_outcome)
  have entry_ok: "entry i = []" if "\<not> short i" for i
    using that by (simp add: entry_def short_def allocateResourceRequest_outcome)
  have len: "length (entry i) = (if short i then 1 else 0)" for i
    using entry_short [of i] entry_ok [of i] by auto
  have conflicts: "snd (snd (allocateResourcesLoop db event requests [] [])) =
      concat (map entry [0..<length requests])"
    unfolding entry_def storeBefore_def by (rule allocateResourcesLoop_conflicts)
  have count: "length (concat (map entry [0..<length requests]))
      = length (filter short [0..<length requests])"
    by (rule length_concat_entries) (simp add: len)
  obtain db' allocations cf where
    loop: "allocateResourcesLoop db event (e_resourceRequests event) [] [] = (db', allocations, cf)"
    by (cases "allocateResourcesLoop db event (e_resourceRequests event) [] []")
  have cf: "cf = concat (map entry [0..<length requests])"
    using conflicts loop by (simp add: requests_def)
  have success: "rs_success result \<longleftrightarrow> concat (map entry [0..<length requests]) = []"
    unfolding cf [symmetric] by (simp add: result_def allocateResources_def loop)
  have reported: "rs_conflicts result = Some (concat (map entry [0..<length requests]))"
    if "\<not> rs_success result"
    using that unfolding cf [symmetric]
    by (simp add: result_def allocateResources_def loop split: if_splits)
  have none_short: "concat (map entry [0..<length requests]) = []
      \<longleftrightarrow> (\<forall>i < length requests. \<not> short i)"
  proof
    assume "concat (map entry [0..<length requests]) = []"
    then have "length (filter short [0..<length requests]) = 0"
      using count by (simp only: list.size)
    then have "filter short [0..<length requests] = []"
      by (simp only: length_0_conv)
    then show "\<forall>i < length requests. \<not> short i"
      by (simp add: filter_empty_conv)
  next
    assume "\<forall>i < length requests. \<not> short i"
    then show "concat (map entry [0..<length requests]) = []"
      by (simp add: entry_ok)
  qed
  have "(rs_success result \<longleftrightarrow> (\<forall>i < length requests. \<not> short i))
     \<and> (\<forall>i < length requests. short i \<longrightarrow>
           (\<exists>conflict. entry i = [conflict] \<and> c_type conflict = resource_shortage))
     \<and> (\<forall>i < length requests. \<not> short i \<longrightarrow> entry i = [])
     \<and> (\<not> rs_success result \<longrightarrow>
           (\<exists>conflicts. rs_conflicts result = Some conflicts
              \<and> conflicts = concat (map entry [0..<length requests])
              \<and> length conflicts = length (filter short [0..<length requests])))"
    using success none_short entry_short entry_ok reported count by simp
  then show ?thesis
    unfolding Let_def requests_def storeBefore_def short_def entry_def result_def .
qed

theorem allocateResources_reports_every_shortage_witness:
  "r_totalQuantity (rq_resource (e_resourceRequests techFestLoaded ! 0))
     - sum_list (map rb_quantity
         (confirmedResourceBookingsInWindow
            (fst (allocateResourcesLoop sampleStore techFestLoaded
                    (take 0 (e_resourceRequests techFestLoaded)) [] []))
            (r_id (rq_resource (e_resourceRequests techFestLoaded ! 0))) techFestLoaded))
     < rq_quantityNeeded (e_resourceRequests techFestLoaded ! 0)
   \<and> \<not> rs_success (fst (allocateResources sampleStore techFestLoaded))
   \<and> rs_conflicts (fst (allocateResources sampleStore techFestLoaded))
        = Some [chairsShortage, microphonesShortage]"
proof -
  have r: "allocateResources sampleStore techFestLoaded =
     (\<lparr>rs_success = False, rs_allocations = None,
       rs_conflicts = Some [chairsShortage, microphonesShortage],
       rs_explanation = ''Failed to allocate 2 resources''\<rparr>,
      withProjectorBooked sampleStore)"
    by (rule allocateResources_sample) (simp_all add: sampleStore_tables)
  have s: "r_totalQuantity (rq_resource (e_resourceRequests techFestLoaded ! 0))
     - sum_list (map rb_quantity
         (confirmedResourceBookingsInWindow
            (fst (allocateResourcesLoop sampleStore techFestLoaded
                    (take 0 (e_resourceRequests techFestLoaded)) [] []))
            (r_id (rq_resource (e_resourceRequests techFestLoaded ! 0))) techFestLoaded))
     < rq_quantityNeeded (e_resourceRequests techFestLoaded ! 0)"
    by (simp add: techFestLoaded_fields chairsRequestLoaded_def chairs_def
          confirmedResourceBookingsInWindow_def sampleStore_tables otherChairsBooking_def)
  show ?thesis
    using allocateResources_reports_every_shortage [of techFestLoaded sampleStore] s
    by (simp add: Let_def r)
qed

section \<open>The whole allocation\<close>

lemma findEventWithRequests_sample:
  "findEventWithRequests sampleStore ''ev1'' = Some techFestLoaded"
  by (simp add: findEventWithRequests_def requestsOfEvent_def sample_defs loaded_defs
        List.map_filter_simps Event.defs EventWithRequests.defs ResourceRequest.defs
        RequestWithResource.defs)

lemma candidateVenues_sample:
  "db_venue db = [mainHall, seminarRoom] \<Longrightarrow>
   candidateVenues db techFestLoaded = [seminarRoom, mainHall]"
  by (simp add: candidateVenues_def venueMatchesPreference_def techFestLoaded_fields
        mainHall_def seminarRoom_def less_eq_prod_def)

lemma allocateVenue_sample:
  assumes "db_venue db = [mainHall, seminarRoom]" and "db_venueBooking db = []"
  shows "allocateVenue db techFestLoaded =
     (\<lparr>va_success = True, va_venueId = Some ''v60'', va_conflicts = None,
       va_explanation = ''Allocated venue: Seminar Room''\<rparr>,
      withSeminarRoomBooked db)"
proof -
  have c: "candidateVenues db techFestLoaded = [seminarRoom, mainHall]"
    using assms(1) by (simp add: candidateVenues_sample)
  have f: "confirmedVenueBookingsInWindow db (v_id seminarRoom) techFestLoaded = []"
    using assms(2) by (simp add: confirmedVenueBookingsInWindow_def)
  have "allocateVenue db techFestLoaded =
     (\<lparr>va_success = True, va_venueId = Some (v_id seminarRoom), va_conflicts = None,
       va_explanation = ''Allocated venue: '' @ v_name seminarRoom\<rparr>,
      db\<lparr>db_venueBooking := db_venueBooking db @
           [\<lparr>vb_venueId = v_id seminarRoom, vb_eventId = e_id techFestLoaded,
             vb_startTime = e_scheduleStart techFestLoaded,
             vb_endTime = e_scheduleEnd techFestLoaded,
             vb_status = ''confirmed''\<rparr>]\<rparr>)"
    using allocateVenue_books_first_free [of db techFestLoaded "[]" seminarRoom "[mainHall]"] c f
    by simp
  then show ?thesis
    by (simp add: withSeminarRoomBooked_def seminarRoomBooking_def seminarRoom_def
          techFestLoaded_fields)
qed

lemma allocateEvent_sample:
  "allocateEvent sampleStore ''ev1'' =
     Inr (\<lparr>ar_success = False, ar_venueId = None, ar_resourceAllocations = None,
           ar_conflicts = Some [chairsShortage, microphonesShortage],
           ar_explanation = ''Resource allocation failed: Failed to allocate 2 resources''\<rparr>,
          withProjectorBooked (withSeminarRoomBooked sampleStore))"
proof -
  have v: "allocateVenue sampleStore techFestLoaded =
     (\<lparr>va_success = True, va_venueId = Some ''v60'', va_conflicts = None,
       va_explanation = ''Allocated venue: Seminar Room''\<rparr>,
      withSeminarRoomBooked sampleStore)"
    by (rule allocateVenue_sample) (simp_all add: sampleStore_tables)
  have r: "allocateResources (withSeminarRoomBooked sampleStore) techFestLoaded =
     (\<lparr>rs_success = False, rs_allocations = None,
       rs_conflicts = Some [chairsShortage, microphonesShortage],
       rs_explanation = ''Failed to allocate 2 resources''\<rparr>,
      withProjectorBooked (withSeminarRoomBooked sampleStore))"
    by (rule allocateResources_sample)
       (simp_all add: withSeminarRoomBooked_def sampleStore_tables)
  show ?thesis
    by (simp add: allocateEvent_def findEventWithRequests_sample techFestLoaded_fields v r)
qed

text \<open>
  Claim C1 says that when the venue allocation succeeds and a resource request cannot be
  met, every booking of the attempt is rolled back. \<open>allocateEvent\<close> returns the
  failure from inside the transaction callback instead of throwing, so the transaction is
  committed. On the sample store the call fails with the two shortages, and the store it
  leaves holds the venue booking of the seminar room and the projector booking, which the
  store before the call did not.
\<close>

theorem allocateEvent_keeps_bookings_on_shortage:
  "allocateEvent sampleStore ''ev1'' =
     Inr (\<lparr>ar_success = False, ar_venueId = None, ar_resourceAllocations = None,
           ar_conflicts = Some [chairsShortage, microphonesShortage],
           ar_explanation = ''Resource allocation failed: Failed to allocate 2 resources''\<rparr>,
          withProjectorBooked (withSeminarRoomBooked sampleStore))
   \<and> db_venueBooking sampleStore = []
   \<and> db_venueBooking (withProjectorBooked (withSeminarRoomBooked sampleStore))
       = [seminarRoomBooking]
   \<and> db_resourceBooking sampleStore = [otherChairsBooking]
   \<and> db_resourceBooking (withProjectorBooked (withSeminarRoomBooked sampleStore))
       = [otherChairsBooking, projectorBooking]
   \<and> withProjectorBooked (withSeminarRoomBooked sampleStore) \<noteq> sampleStore"
proof -
  have "db_venueBooking (withProjectorBooked (withSeminarRoomBooked sampleStore))
          \<noteq> db_venueBooking sampleStore"
    by (simp add: withProjectorBooked_def withSeminarRoomBooked_def sampleStore_tables)
  then have "withProjectorBooked (withSeminarRoomBooked sampleStore) \<noteq> sampleStore"
    by auto
  then show ?thesis
    by (simp add: allocateEvent_sample withProjectorBooked_def withSeminarRoomBooked_def
          sampleStore_tables)
qed

section \<open>The feasibility check against the allocation\<close>

lemma findEventWithRequests_auditorium:
  "findEventWithRequests auditoriumStore ''ev1'' =
     Some (techFestLoaded\<lparr>e_venueTypePreference := Some ''AUDITORIUM'',
                           e_resourceRequests := []\<rparr>)"
  by (simp add: findEventWithRequests_def requestsOfEvent_def auditoriumStore_def sample_defs
        loaded_defs List.map_filter_simps Event.defs EventWithRequests.defs)

text \<open>
  Claim C7 says that \<open>checkAllocationFeasibility\<close> succeeds exactly when the venue and
  resource checks of \<open>allocateEvent\<close> would, the venue-type preference included.
  \<open>checkVenueAvailability\<close> does not filter by venue type. For an event that prefers an
  auditorium, in a store whose two venues are a hall and a seminar room, the feasibility
  check reports success while \<open>allocateEvent\<close> finds no candidate venue and fails.
\<close>

theorem checkAllocationFeasibility_ignores_venue_type:
  "checkAllocationFeasibility auditoriumStore ''ev1'' =
     Inr \<lparr>ar_success = True, ar_venueId = None, ar_resourceAllocations = None,
          ar_conflicts = Some [],
          ar_explanation = ''Feasibility check: Venue OK, Resources OK''\<rparr>
   \<and> allocateEvent auditoriumStore ''ev1'' =
     Inr (\<lparr>ar_success = False, ar_venueId = None, ar_resourceAllocations = None,
           ar_conflicts = Some
             [\<lparr>c_type = venue_unavailable, c_conflictingEventIds = [],
               c_details = ''No suitable venues available'',
               c_suggestions = Some [''Consider reducing participant count'',
                                     ''Choose different time slot'']\<rparr>],
           ar_explanation = ''Venue allocation failed: No venues found with capacity >= 50''\<rparr>,
          auditoriumStore)"
proof -
  have tables: "db_venue auditoriumStore = [mainHall, seminarRoom]"
    "db_venueBooking auditoriumStore = []"
    by (simp_all add: auditoriumStore_def sampleStore_def)
  have feasible: "checkAllocationFeasibility auditoriumStore ''ev1'' =
     Inr \<lparr>ar_success = True, ar_venueId = None, ar_resourceAllocations = None,
          ar_conflicts = Some [],
          ar_explanation = ''Feasibility check: Venue OK, Resources OK''\<rparr>"
    by (simp add: checkAllocationFeasibility_def findEventWithRequests_auditorium Let_def
          checkVenueAvailability_def checkResourceAvailability_def tables
          confirmedVenueBookingsInWindow_def techFestLoaded_def mainHall_def seminarRoom_def)
  have allocate: "allocateEvent auditoriumStore ''ev1'' =
     Inr (\<lparr>ar_success = False, ar_venueId = None, ar_resourceAllocations = None,
           ar_conflicts = Some
             [\<lparr>c_type = venue_unavailable, c_conflictingEventIds = [],
               c_details = ''No suitable venues available'',
               c_suggestions = Some [''Consider reducing participant count'',
                                     ''Choose different time slot'']\<rparr>],
           ar_explanation = ''Venue allocation failed: No venues found with capacity >= 50''\<rparr>,
          auditoriumStore)"
    by (simp add: allocateEvent_def findEventWithRequests_auditorium Let_def
          allocateVenue_def candidateVenues_def venueMatchesPreference_def tables
          techFestLoaded_def mainHall_def seminarRoom_def showInt_small)
  show ?thesis
    using feasible allocate by simp
qed

section \<open>The permission check\<close>

lemma validateApprovalPermission_table:
  "validateApprovalPermission approverRole currentStage approverSchoolId approverDepartmentId
       eventSchoolId eventDepartmentId
   \<longleftrightarrow> (currentStage = Stage_SUBMITTED \<and> approverRole = HOD
          \<and> approverDepartmentId = Some eventDepartmentId)
       \<or> (currentStage = Stage_HOD_APPROVED \<and> approverRole = DEAN
          \<and> approverSchoolId = Some eventSchoolId)
       \<or> (currentStage = Stage_DEAN_APPROVED \<and> approverRole = INSTITUTIONAL_HEAD)"
  by (cases currentStage) simp_all

lemma processApproval_denied:
  assumes "find (\<lambda>e. e_id e = ctx_eventId ctx) (db_event db) = Some event"
    and "find (\<lambda>u. u_id u = ctx_approverId ctx) (db_user db) = Some approver"
    and "\<not> validateApprovalPermission (u_role approver) (e_approvalStage event)
            (u_schoolId approver) (u_departmentId approver)
            (e_schoolId event) (e_departmentId event)"
  shows "processApproval db ctx =
     Inr (\<lparr>po_success = False, po_nextStage = None,
           po_error = Some ''Insufficient permissions to approve this event''\<rparr>, db)"
  using assms by (simp add: processApproval_def)

lemma sample_user_ids:
  "u_id coordinatorUser = ''u_coord''" "u_id hodUser = ''u_hod''" "u_id deanUser = ''u_dean''"
  "u_id headUser = ''u_head''" "u_id systemUser = ''system''"
  by (simp_all add: coordinatorUser_def hodUser_def deanUser_def headUser_def systemUser_def)

text \<open>
  Claim C8. When the event and the approver exist and the approver's role and scope do not
  match the event's stage (Submitted needs a department head of the event's department,
  HodApproved a dean of the event's school, DeanApproved the institutional head),
  \<open>processApproval\<close> returns the structured permission failure, does not throw, and
  leaves the store as it was. In particular a dean is denied on an event at Submitted.
\<close>

theorem processApproval_permission_denied:
  "find (\<lambda>e. e_id e = ctx_eventId ctx) (db_event db) = Some event \<Longrightarrow>
   find (\<lambda>u. u_id u = ctx_approverId ctx) (db_user db) = Some approver \<Longrightarrow>
   (\<not> ((e_approvalStage event = Stage_SUBMITTED \<and> u_role approver = HOD
          \<and> u_departmentId approver = Some (e_departmentId event))
        \<or> (e_approvalStage event = Stage_HOD_APPROVED \<and> u_role approver = DEAN
          \<and> u_schoolId approver = Some (e_schoolId event))
        \<or> (e_approvalStage event = Stage_DEAN_APPROVED
          \<and> u_role approver = INSTITUTIONAL_HEAD))
      \<longrightarrow> processApproval db ctx =
            Inr (\<lparr>po_success = False, po_nextStage = None,
                  po_error = Some ''Insufficient permissions to approve this event''\<rparr>, db))
   \<and> (e_approvalStage event = Stage_SUBMITTED \<and> u_role approver = DEAN
      \<longrightarrow> processApproval db ctx =
            Inr (\<lparr>po_success = False, po_nextStage = None,
                  po_error = Some ''Insufficient permissions to approve this event''\<rparr>, db))"
  by (auto simp: processApproval_denied validateApprovalPermission_table)

theorem processApproval_permission_denied_witness:
  "find (\<lambda>e. e_id e = ctx_eventId deanApproves) (db_event (sampleStoreAt Stage_SUBMITTED))
     = Some (techFest\<lparr>e_approvalStage := Stage_SUBMITTED\<rparr>)
   \<and> find (\<lambda>u. u_id u = ctx_approverId deanApproves) (db_user (sampleStoreAt Stage_SUBMITTED))
     = Some deanUser
   \<and> e_approvalStage (techFest\<lparr>e_approvalStage := Stage_SUBMITTED\<rparr>) = Stage_SUBMITTED
   \<and> u_role deanUser = DEAN
   \<and> processApproval (sampleStoreAt Stage_SUBMITTED) deanApproves =
        Inr (\<lparr>po_success = False, po_nextStage = None,
              po_error = Some ''Insufficient permissions to approve this event''\<rparr>,
             sampleStoreAt Stage_SUBMITTED)"
proof -
  have e: "find (\<lambda>e. e_id e = ctx_eventId deanApproves) (db_event (sampleStoreAt Stage_SUBMITTED))
     = Some (techFest\<lparr>e_approvalStage := Stage_SUBMITTED\<rparr>)"
    by (simp add: sampleStoreAt_def deanApproves_def techFest_def)
  have u: "find (\<lambda>u. u_id u = ctx_approverId deanApproves) (db_user (sampleStoreAt Stage_SUBMITTED))
     = Some deanUser"
    by (simp add: sampleStoreAt_def deanApproves_def sampleStore_tables sample_user_ids)
  have r: "u_role deanUser = DEAN"
    by (simp add: deanUser_def)
  show ?thesis
    using processApproval_permission_denied [OF e u] e u r by simp
qed

text \<open>
  Claim C10. When the event and the approver exist and the event's stage is Draft,
  HeadApproved, Approved, Rejected or ModificationRequired, \<open>processApproval\<close> returns
  the permission failure whatever the approver's role and scope, and leaves the store as it
  was.
\<close>

theorem processApproval_outside_awaiting_stages:
  "find (\<lambda>e. e_id e = ctx_eventId ctx) (db_event db) = Some event \<Longrightarrow>
   find (\<lambda>u. u_id u = ctx_approverId ctx) (db_user db) = Some approver \<Longrightarrow>
   e_approvalStage event \<in> {Stage_DRAFT, Stage_HEAD_APPROVED, Stage_APPROVED, Stage_REJECTED,
                             Stage_MODIFICATION_REQUIRED} \<Longrightarrow>
   processApproval db ctx =
     Inr (\<lparr>po_success = False, po_nextStage = None,
           po_error = Some ''Insufficient permissions to approve this event''\<rparr>, db)"
  by (rule processApproval_denied) (auto simp: validateApprovalPermission_table)

theorem processApproval_outside_awaiting_stages_witness:
  "find (\<lambda>e. e_id e = ctx_eventId headApproves) (db_event sampleStore) = Some techFest
   \<and> find (\<lambda>u. u_id u = ctx_approverId headApproves) (db_user sampleStore) = Some headUser
   \<and> e_approvalStage techFest = Stage_HEAD_APPROVED
   \<and> processApproval sampleStore headApproves =
        Inr (\<lparr>po_success = False, po_nextStage = None,
              po_error = Some ''Insufficient permissions to approve this event''\<rparr>,
             sampleStore)"
proof -
  have e: "find (\<lambda>e. e_id e = ctx_eventId headApproves) (db_event sampleStore) = Some techFest"
    by (simp add: sampleStore_tables headApproves_def techFest_def)
  have u: "find (\<lambda>u. u_id u = ctx_approverId headApproves) (db_user sampleStore) = Some headUser"
    by (simp add: sampleStore_tables headApproves_def sample_user_ids)
  have s: "e_approvalStage techFest = Stage_HEAD_APPROVED"
    by (simp add: techFest_def)
  show ?thesis
    using processApproval_outside_awaiting_stages [OF e u] e u s by simp
qed

section \<open>The final approval\<close>


text \<open>
  Claim C2 says that the institutional head's approval of an event at DeanApproved is the
  final approval, runs the allocation, and ends with status and stage Approved when the
  allocation succeeds. The successor of DeanApproved is HeadApproved, which is not the
  stage the allocation branch tests for. On a store where the allocation would succeed
  (run from HeadApproved it approves the event), the head's approval only moves the event
  to HeadApproved: the status stays Submitted and no booking is written.
\<close>

theorem processApproval_head_approval_skips_allocation:
  "processApproval (feasibleStoreAt Stage_DEAN_APPROVED) headApproves =
     Inr (\<lparr>po_success = True, po_nextStage = Some Stage_HEAD_APPROVED, po_error = None\<rparr>,
          (feasibleStoreAt Stage_HEAD_APPROVED)
            \<lparr>db_approvalStep :=
               [\<lparr>s_eventId = ''ev1'', s_approverId = ''u_head'', s_stage = Stage_HEAD_APPROVED,
                 s_action = Action_APPROVED, s_comments = None\<rparr>],
             db_notification :=
               [\<lparr>n_userId = ''u_coord'', n_eventId = Some ''ev1'',
                 n_type = ''EVENT_APPROVED'', n_title = ''Event Approved'',
                 n_message = ''Your event '' @ quoted ''Tech Fest''
                             @ '' has been approved at HEAD_APPROVED stage''\<rparr>]\<rparr>)
   \<and> db_venueBooking (feasibleStoreAt Stage_HEAD_APPROVED) = []
   \<and> db_resourceBooking (feasibleStoreAt Stage_HEAD_APPROVED)
       = db_resourceBooking (feasibleStoreAt Stage_DEAN_APPROVED)
   \<and> map e_approvalStage
         (filter (\<lambda>e. e_id e = ''ev1'') (db_event (feasibleStoreAt Stage_HEAD_APPROVED)))
       = [Stage_HEAD_APPROVED]
   \<and> map e_status
         (filter (\<lambda>e. e_id e = ''ev1'') (db_event (feasibleStoreAt Stage_HEAD_APPROVED)))
       = [Status_SUBMITTED]
   \<and> (case allocateEvent (feasibleStoreAt Stage_HEAD_APPROVED) ''ev1'' of
         Inl err \<Rightarrow> False
       | Inr (allocationResult, db') \<Rightarrow>
           ar_success allocationResult
           \<and> map e_approvalStage (filter (\<lambda>e. e_id e = ''ev1'') (db_event db'))
               = [Stage_APPROVED]
           \<and> map e_status (filter (\<lambda>e. e_id e = ''ev1'') (db_event db'))
               = [Status_APPROVED])"
proof -
  have approve: "processApproval (feasibleStoreAt Stage_DEAN_APPROVED) headApproves =
     Inr (\<lparr>po_success = True, po_nextStage = Some Stage_HEAD_APPROVED, po_error = None\<rparr>,
          (feasibleStoreAt Stage_HEAD_APPROVED)
            \<lparr>db_approvalStep :=
               [\<lparr>s_eventId = ''ev1'', s_approverId = ''u_head'', s_stage = Stage_HEAD_APPROVED,
                 s_action = Action_APPROVED, s_comments = None\<rparr>],
             db_notification :=
               [\<lparr>n_userId = ''u_coord'', n_eventId = Some ''ev1'',
                 n_type = ''EVENT_APPROVED'', n_title = ''Event Approved'',
                 n_message = ''Your event '' @ quoted ''Tech Fest''
                             @ '' has been approved at HEAD_APPROVED stage''\<rparr>]\<rparr>)"
    by (simp add: processApproval_def processPermitted_def switchAction_def Let_def
          sendApprovalNotifications_def createNotification_def feasibleStoreAt_def
          headApproves_def sampleStore_def techFest_def orientation_def sample_user_ids
          headUser_def)
  have allocate: "(case allocateEvent (feasibleStoreAt Stage_HEAD_APPROVED) ''ev1'' of
         Inl err \<Rightarrow> False
       | Inr (allocationResult, db') \<Rightarrow>
           ar_success allocationResult
           \<and> map e_approvalStage (filter (\<lambda>e. e_id e = ''ev1'') (db_event db'))
               = [Stage_APPROVED]
           \<and> map e_status (filter (\<lambda>e. e_id e = ''ev1'') (db_event db'))
               = [Status_APPROVED])"
    by code_simp
  show ?thesis
    using approve allocate
    by (simp add: feasibleStoreAt_def sampleStore_def techFest_def orientation_def)
qed

end
